theory Spec2Isabelle
  imports Main
begin

section \<open>Dates and times\<close>

text \<open>
  Python's naive \<^verbatim>\<open>datetime\<close> is a count of microseconds since 0001-01-01 00:00:00,
  a \<^verbatim>\<open>date\<close> a count of days since 0001-01-01 (\<^verbatim>\<open>toordinal() - 1\<close>), a
  \<^verbatim>\<open>time\<close> a count of microseconds since midnight. Comparison of any two values of
  one of these types is comparison of the counts. 0001-01-01 is a Monday.
\<close>

type_synonym datetime = int
type_synonym date = int
type_synonym time_of_day = int

definition DAY :: int where
  "DAY = 86400000000"

definition MINUTE :: int where
  "MINUTE = 60000000"

definition MAX_DATETIME :: datetime where
  \<comment> \<open>\<^verbatim>\<open>datetime.max\<close>, 9999-12-31 23:59:59.999999; \<^verbatim>\<open>date.max.toordinal() = 3652059\<close>\<close>
  "MAX_DATETIME = 3652059 * DAY - 1"

definition date_of :: "datetime \<Rightarrow> date" where
  \<comment> \<open>\<^verbatim>\<open>dt.date()\<close>\<close>
  "date_of dt = dt div DAY"

definition time_of :: "datetime \<Rightarrow> time_of_day" where
  \<comment> \<open>\<^verbatim>\<open>dt.time()\<close>\<close>
  "time_of dt = dt mod DAY"

definition plus_minutes :: "datetime \<Rightarrow> int \<Rightarrow> datetime option" where
  \<comment> \<open>\<^verbatim>\<open>dt + timedelta(minutes=m)\<close>; \<open>None\<close> is the OverflowError Python raises when
      the timedelta or the sum leaves the representable range\<close>
  "plus_minutes dt m =
     (let r = dt + m * MINUTE in if 0 \<le> r \<and> r \<le> MAX_DATETIME then Some r else None)"

datatype DayOfWeek = MONDAY | TUESDAY | WEDNESDAY | THURSDAY | FRIDAY | SATURDAY | SUNDAY

definition day_of_week :: "datetime \<Rightarrow> DayOfWeek" where
  \<comment> \<open>\<^verbatim>\<open>DayOfWeek[scheduled_time.strftime('%A').upper()]\<close>, in an English locale\<close>
  "day_of_week dt =
     [MONDAY, TUESDAY, WEDNESDAY, THURSDAY, FRIDAY, SATURDAY, SUNDAY] ! nat (date_of dt mod 7)"

section \<open>Entities\<close>

text \<open>
  One record per mapped class of \<^verbatim>\<open>src/models\<close>, with the columns the services read or
  write. Field names carry a prefix where two classes share a column name. The
  \<^verbatim>\<open>created_at\<close> timestamps and the profile columns of members, trainers and admins
  are left out: no operation below reads them. Members, trainers and admins are
  represented by their primary keys.
\<close>

datatype BookingStatus = BOOKING_CONFIRMED | BOOKING_PENDING | BOOKING_CANCELLED

datatype ClassStatus = CLASS_SCHEDULED | CLASS_IN_PROGRESS | CLASS_COMPLETED | CLASS_CANCELLED

datatype RegistrationStatus = REG_REGISTERED | REG_ATTENDED | REG_CANCELLED | REG_NO_SHOW

datatype SessionStatus = SESSION_SCHEDULED | SESSION_COMPLETED | SESSION_CANCELLED | SESSION_NO_SHOW

record Room =
  room_id :: int
  room_name :: string
  room_capacity :: int

record RoomBooking =
  booking_id :: int
  rb_room_id :: int
  booking_date :: date
  rb_start_time :: time_of_day
  rb_end_time :: time_of_day
  purpose :: "string option"
  booked_by_admin_id :: "int option"
  rb_status :: BookingStatus

record TrainerAvailability =
  availability_id :: int
  ta_trainer_id :: int
  ta_day_of_week :: DayOfWeek
  ta_start_time :: time_of_day
  ta_end_time :: time_of_day

record FitnessClass =
  class_id :: int
  fc_name :: string
  fc_description :: "string option"
  fc_trainer_id :: int
  fc_room_id :: int
  fc_scheduled_time :: datetime
  fc_duration_minutes :: int
  fc_capacity :: int
  fc_status :: ClassStatus

record ClassRegistration =
  registration_id :: int
  cr_member_id :: int
  cr_class_id :: int
  cr_status :: RegistrationStatus

record PersonalTrainingSession =
  session_id :: int
  pt_member_id :: int
  pt_trainer_id :: int
  pt_room_id :: "int option"
  pt_scheduled_time :: datetime
  pt_duration_minutes :: int
  pt_notes :: "string option"
  pt_status :: SessionStatus

subsection \<open>The conflict predicates of the models\<close>

definition conflicts_with :: "RoomBooking \<Rightarrow> RoomBooking \<Rightarrow> bool" where
  \<comment> \<open>\<^verbatim>\<open>RoomBooking.conflicts_with\<close>\<close>
  "conflicts_with self other =
     (if rb_room_id self \<noteq> rb_room_id other then False
      else if booking_date self \<noteq> booking_date other then False
      else if rb_status self = BOOKING_CANCELLED \<or> rb_status other = BOOKING_CANCELLED then False
      else rb_start_time self < rb_end_time other \<and> rb_start_time other < rb_end_time self)"

definition overlaps_with :: "TrainerAvailability \<Rightarrow> TrainerAvailability \<Rightarrow> bool" where
  \<comment> \<open>\<^verbatim>\<open>TrainerAvailability.overlaps_with\<close>\<close>
  "overlaps_with self other =
     (if ta_trainer_id self \<noteq> ta_trainer_id other then False
      else if ta_day_of_week self \<noteq> ta_day_of_week other then False
      else ta_start_time self < ta_end_time other \<and> ta_start_time other < ta_end_time self)"

definition get_end_time :: "FitnessClass \<Rightarrow> datetime option" where
  \<comment> \<open>\<^verbatim>\<open>FitnessClass.get_end_time\<close>\<close>
  "get_end_time c = plus_minutes (fc_scheduled_time c) (fc_duration_minutes c)"

section \<open>The database and the ORM session\<close>

text \<open>
  The tables are lists of rows in insertion order; a query without \<^verbatim>\<open>order_by\<close>
  returns rows in that order.
\<close>

record database =
  members :: "int list"
  trainers :: "int list"
  admins :: "int list"
  rooms :: "Room list"
  room_bookings :: "RoomBooking list"
  trainer_availability :: "TrainerAvailability list"
  fitness_classes :: "FitnessClass list"
  class_registrations :: "ClassRegistration list"
  personal_training_sessions :: "PersonalTrainingSession list"

text \<open>
  Each table with an autoincrement key has its sequence; the field is the value the next
  INSERT draws. A sequence is not transactional: a value that was drawn stays drawn when
  the statement is refused or the transaction is rolled back.
\<close>

record sequences =
  booking_seq :: int
  class_seq :: int
  registration_seq :: int
  session_seq :: int

text \<open>
  The session is created with \<^verbatim>\<open>autoflush=False\<close> (\<^verbatim>\<open>models/base.py\<close>): an added
  object or a changed attribute stays pending in the session until \<^verbatim>\<open>commit()\<close>
  flushes it, queries read the database without the pending changes, and
  \<^verbatim>\<open>rollback()\<close> discards them.
\<close>

datatype change =
    AddRoomBooking RoomBooking
  | AddFitnessClass FitnessClass
  | AddClassRegistration ClassRegistration
  | AddSession PersonalTrainingSession
  | SetBookingStatus int BookingStatus
  | SetClassStatus int ClassStatus
  | SetRegistrationStatus int RegistrationStatus
  | SetSessionStatus int SessionStatus

text \<open>
  \<open>keys_before_values\<close> records how the driver sends a statement. With psycopg2 the
  values are literals of the statement and the server coerces them to the column types
  when it plans the statement, before a key is drawn (\<open>False\<close>); with parameters bound
  on the server the key is drawn first (\<open>True\<close>). It only decides whether an INSERT
  refused for a value out of range has consumed a key.
\<close>

record orm_session =
  db :: database
  seqs :: sequences
  keys_before_values :: bool
  pending :: "change list"

subsection \<open>What an INSERT refuses\<close>

text \<open>
  The exceptions of a flush: \<open>ValueError\<close> is raised by the driver for a text with a
  NUL character, before anything is sent; \<open>DataError\<close> by the server for a value that
  does not fit its column (an \<^verbatim>\<open>Integer\<close> column holds 32 bits, \<^verbatim>\<open>String(100)\<close> holds
  100 characters) or for an exhausted sequence; \<open>IntegrityError\<close> for a foreign key or
  a unique constraint.
\<close>

datatype db_exception = ValueError | DataError | IntegrityError

definition INT_MAX :: int where
  "INT_MAX = 2147483647"

definition int32 :: "int \<Rightarrow> bool" where
  \<comment> \<open>the values of an \<^verbatim>\<open>Integer\<close> column\<close>
  "int32 i = (- INT_MAX - 1 \<le> i \<and> i \<le> INT_MAX)"

definition no_nul :: "string \<Rightarrow> bool" where
  \<comment> \<open>a text the driver sends; a string is the list of its characters\<close>
  "no_nul txt = (CHR 0x00 \<notin> set txt)"

definition nullable :: "('a \<Rightarrow> bool) \<Rightarrow> 'a option \<Rightarrow> bool" where
  \<comment> \<open>a check of a nullable column: \<^verbatim>\<open>None\<close> is stored as NULL\<close>
  "nullable P x = (case x of None \<Rightarrow> True | Some v \<Rightarrow> P v)"

text \<open>
  One INSERT, given what was checked of the row: its texts (\<open>texts\<close>), its other values
  (\<open>vals\<close>) and its constraints (\<open>constraints\<close>); \<open>key\<close> is the value of the
  sequence, \<open>q\<close> the sequences before and \<open>q'\<close> after the key is drawn, \<open>d'\<close> the tables
  with the row. A statement refused for a constraint has drawn its key.
\<close>

definition insert_row ::
  "bool \<Rightarrow> bool \<Rightarrow> bool \<Rightarrow> bool \<Rightarrow> int \<Rightarrow> sequences \<Rightarrow> sequences \<Rightarrow> database \<Rightarrow>
   (db_exception + database) \<times> sequences" where
  "insert_row eager texts vals constraints key q q' d' =
     (if \<not> texts then (Inl ValueError, q)
      else if key > INT_MAX then (Inl DataError, q)
      else if \<not> vals then (Inl DataError, if eager then q' else q)
      else if \<not> constraints then (Inl IntegrityError, q')
      else (Inr d', q'))"

text \<open>
  Flushing one change. The constraints are those declared in the models:
  \<^verbatim>\<open>uq_member_class_registration\<close> is on \<^verbatim>\<open>(member_id, class_id)\<close>, whatever the
  status of the rows. An UPDATE of a status rewrites the row with that key.
\<close>

fun apply_change ::
  "bool \<Rightarrow> change \<Rightarrow> database \<times> sequences \<Rightarrow> (db_exception + database) \<times> sequences" where
  "apply_change eager (AddRoomBooking b) (d, q) =
     insert_row eager
       (nullable no_nul (purpose b))
       (int32 (rb_room_id b) \<and> nullable int32 (booked_by_admin_id b))
       (rb_room_id b \<in> set (map room_id (rooms d)) \<and>
        nullable (\<lambda>a. a \<in> set (admins d)) (booked_by_admin_id b))
       (booking_seq q) q (q\<lparr>booking_seq := booking_seq q + 1\<rparr>)
       (d\<lparr>room_bookings := room_bookings d @ [b\<lparr>booking_id := booking_seq q\<rparr>]\<rparr>)"
| "apply_change eager (AddFitnessClass c) (d, q) =
     insert_row eager
       (no_nul (fc_name c) \<and> nullable no_nul (fc_description c))
       (length (fc_name c) \<le> 100 \<and> int32 (fc_trainer_id c) \<and> int32 (fc_room_id c) \<and>
        int32 (fc_duration_minutes c) \<and> int32 (fc_capacity c))
       (fc_trainer_id c \<in> set (trainers d) \<and> fc_room_id c \<in> set (map room_id (rooms d)))
       (class_seq q) q (q\<lparr>class_seq := class_seq q + 1\<rparr>)
       (d\<lparr>fitness_classes := fitness_classes d @ [c\<lparr>class_id := class_seq q\<rparr>]\<rparr>)"
| "apply_change eager (AddClassRegistration r) (d, q) =
     insert_row eager
       True
       (int32 (cr_member_id r) \<and> int32 (cr_class_id r))
       (cr_member_id r \<in> set (members d) \<and>
        cr_class_id r \<in> set (map class_id (fitness_classes d)) \<and>
        \<not> list_ex (\<lambda>x. cr_member_id x = cr_member_id r \<and> cr_class_id x = cr_class_id r)
             (class_registrations d))
       (registration_seq q) q (q\<lparr>registration_seq := registration_seq q + 1\<rparr>)
       (d\<lparr>class_registrations :=
            class_registrations d @ [r\<lparr>registration_id := registration_seq q\<rparr>]\<rparr>)"
| "apply_change eager (AddSession p) (d, q) =
     insert_row eager
       (nullable no_nul (pt_notes p))
       (int32 (pt_member_id p) \<and> int32 (pt_trainer_id p) \<and> nullable int32 (pt_room_id p) \<and>
        int32 (pt_duration_minutes p))
       (pt_member_id p \<in> set (members d) \<and> pt_trainer_id p \<in> set (trainers d) \<and>
        nullable (\<lambda>r. r \<in> set (map room_id (rooms d))) (pt_room_id p))
       (session_seq q) q (q\<lparr>session_seq := session_seq q + 1\<rparr>)
       (d\<lparr>personal_training_sessions :=
            personal_training_sessions d @ [p\<lparr>session_id := session_seq q\<rparr>]\<rparr>)"
| "apply_change eager (SetBookingStatus i st) (d, q) =
     (Inr (d\<lparr>room_bookings :=
               map (\<lambda>b. if booking_id b = i then b\<lparr>rb_status := st\<rparr> else b) (room_bookings d)\<rparr>),
      q)"
| "apply_change eager (SetClassStatus i st) (d, q) =
     (Inr (d\<lparr>fitness_classes :=
               map (\<lambda>c. if class_id c = i then c\<lparr>fc_status := st\<rparr> else c) (fitness_classes d)\<rparr>),
      q)"
| "apply_change eager (SetRegistrationStatus i st) (d, q) =
     (Inr (d\<lparr>class_registrations :=
               map (\<lambda>r. if registration_id r = i then r\<lparr>cr_status := st\<rparr> else r)
                 (class_registrations d)\<rparr>),
      q)"
| "apply_change eager (SetSessionStatus i st) (d, q) =
     (Inr (d\<lparr>personal_training_sessions :=
               map (\<lambda>p. if session_id p = i then p\<lparr>pt_status := st\<rparr> else p)
                 (personal_training_sessions d)\<rparr>),
      q)"

text \<open>
  The flush stops at the first refused statement, with the sequences as the statements
  so far have left them.
\<close>

fun flush ::
  "bool \<Rightarrow> change list \<Rightarrow> database \<times> sequences \<Rightarrow> (db_exception + database) \<times> sequences" where
  "flush eager [] (d, q) = (Inr d, q)"
| "flush eager (c # cs) (d, q) =
     (case apply_change eager c (d, q) of
        (Inl ex, q') \<Rightarrow> (Inl ex, q')
      | (Inr d', q') \<Rightarrow> flush eager cs (d', q'))"

definition add :: "change \<Rightarrow> orm_session \<Rightarrow> orm_session" where
  \<comment> \<open>\<^verbatim>\<open>session.add(obj)\<close>, or an attribute assignment on a loaded object\<close>
  "add c s = s\<lparr>pending := pending s @ [c]\<rparr>"

definition commit :: "orm_session \<Rightarrow> (db_exception \<times> orm_session) + orm_session" where
  \<comment> \<open>\<^verbatim>\<open>session.commit()\<close>; \<open>Inl\<close> when the flush raises: the tables are as before,
      the changes still pending, the drawn keys gone\<close>
  "commit s =
     (case flush (keys_before_values s) (pending s) (db s, seqs s) of
        (Inl ex, q) \<Rightarrow> Inl (ex, s\<lparr>seqs := q\<rparr>)
      | (Inr d, q) \<Rightarrow> Inr (s\<lparr>db := d, seqs := q, pending := []\<rparr>))"

definition rollback :: "orm_session \<Rightarrow> orm_session" where
  \<comment> \<open>\<^verbatim>\<open>session.rollback()\<close>\<close>
  "rollback s = s\<lparr>pending := []\<rparr>"

section \<open>Results\<close>

text \<open>
  A service call returns \<^verbatim>\<open>{'success': False, 'error': msg}\<close> or a success payload.
  The failures are named after the specification's taxonomy; each stands for one
  message of the source:
  \<^item> \<open>RoomNotFound\<close>, \<open>TrainerNotFound\<close>, \<open>MemberNotFound\<close>, \<open>BookingNotFound\<close>,
    \<open>ClassNotFound\<close>, \<open>SessionNotFound\<close>, \<open>RegistrationNotFound\<close>: "... not found";
  \<^item> \<open>InvalidRange\<close>: "End time must be after start time" or "Duration must be positive";
  \<^item> \<open>PastDate\<close>: "Cannot book for past dates";
  \<^item> \<open>Conflict s e\<close>: "Room is already booked from s to e";
  \<^item> \<open>CapacityExceeded\<close>: "Class capacity (..) exceeds room capacity (..)";
  \<^item> \<open>PastSchedule\<close>: "Cannot schedule class in the past" or
    "Session must be scheduled in the future";
  \<^item> \<open>RoomConflict\<close>: "Room is not available at this time";
  \<^item> \<open>TrainerUnavailable\<close>: "Trainer is not available on .. at ..";
  \<^item> \<open>TrainerConflict\<close>: "Trainer has a conflicting session at this time";
  \<^item> \<open>MemberConflict\<close>: "You have a conflicting session at this time";
  \<^item> \<open>AlreadyCancelled\<close>: "Session is already cancelled" or
    "Registration is already cancelled";
  \<^item> \<open>AlreadyCompleted\<close>: "Cannot cancel a completed session";
  \<^item> \<open>PastSession\<close>: "Cannot cancel a past session";
  \<^item> \<open>NotScheduled\<close>: "Can only reschedule scheduled sessions" or
    "Class is not available for registration";
  \<^item> \<open>PastClass\<close>: "Cannot register for past classes";
  \<^item> \<open>AlreadyRegistered\<close>: "You are already registered for this class";
  \<^item> \<open>ClassFull\<close>: "Class is full";
  \<^item> \<open>SessionConflict\<close>: "You have a conflicting PT session at this time";
  \<^item> \<open>AttendedClass\<close>: "Cannot cancel an attended class";
  \<^item> \<open>ClassStarted\<close>: "Cannot cancel registration for a class that has started";
  \<^item> \<open>DatabaseError\<close>: the text of an exception caught around \<^verbatim>\<open>commit()\<close>.
  \<open>OverflowError\<close> and \<open>AttributeError\<close> are exceptions that leave the call uncaught.
\<close>

datatype error =
    RoomNotFound | TrainerNotFound | MemberNotFound | BookingNotFound
  | ClassNotFound | SessionNotFound | RegistrationNotFound
  | InvalidRange | PastDate | Conflict time_of_day time_of_day
  | CapacityExceeded | PastSchedule | RoomConflict
  | TrainerUnavailable | TrainerConflict | MemberConflict
  | AlreadyCancelled | AlreadyCompleted | PastSession | NotScheduled
  | PastClass | AlreadyRegistered | ClassFull | SessionConflict
  | AttendedClass | ClassStarted
  | DatabaseError | OverflowError | AttributeError

section \<open>AdminService\<close>

definition get_room_by_id :: "database \<Rightarrow> int \<Rightarrow> Room option" where
  "get_room_by_id d rid = find (\<lambda>r. room_id r = rid) (rooms d)"

definition existing_bookings :: "database \<Rightarrow> int \<Rightarrow> date \<Rightarrow> RoomBooking list" where
  \<comment> \<open>the query shared by \<^verbatim>\<open>book_room\<close> and \<^verbatim>\<open>is_room_available\<close>\<close>
  "existing_bookings d rid bdate =
     filter (\<lambda>b. rb_room_id b = rid \<and> booking_date b = bdate \<and> rb_status b \<noteq> BOOKING_CANCELLED)
       (room_bookings d)"

text \<open>
  \<^verbatim>\<open>book_room\<close>. The new object has no status until it is flushed; the column default
  \<^verbatim>\<open>CONFIRMED\<close> is written here from the start, which \<^verbatim>\<open>conflicts_with\<close> cannot tell
  apart (it only asks whether the status is \<^verbatim>\<open>CANCELLED\<close>). \<open>now\<close> is the clock;
  \<^verbatim>\<open>date.today()\<close> is its date.
\<close>

definition book_room ::
  "datetime \<Rightarrow> int \<Rightarrow> date \<Rightarrow> time_of_day \<Rightarrow> time_of_day \<Rightarrow> string option \<Rightarrow> int option \<Rightarrow>
   orm_session \<Rightarrow> (error + RoomBooking) \<times> orm_session" where
  "book_room now rid bdate start_time end_time purp admin_id s =
     (case get_room_by_id (db s) rid of
        None \<Rightarrow> (Inl RoomNotFound, s)
      | Some room \<Rightarrow>
          if start_time \<ge> end_time then (Inl InvalidRange, s)
          else if bdate < date_of now then (Inl PastDate, s)
          else
            let new_booking = \<lparr>booking_id = 0, rb_room_id = rid, booking_date = bdate,
                                rb_start_time = start_time, rb_end_time = end_time,
                                purpose = purp, booked_by_admin_id = admin_id,
                                rb_status = BOOKING_CONFIRMED\<rparr>
            in (case find (\<lambda>booking. conflicts_with new_booking booking)
                       (existing_bookings (db s) rid bdate) of
                  Some booking \<Rightarrow>
                    (Inl (Conflict (rb_start_time booking) (rb_end_time booking)), s)
                | None \<Rightarrow>
                    (let s1 = add (AddRoomBooking new_booking) s
                     in (case commit s1 of
                           Inr s2 \<Rightarrow> (Inr (last (room_bookings (db s2))), s2)
                         | Inl (ex, s2) \<Rightarrow> (Inl DatabaseError, rollback s2)))))"

definition cancel_room_booking :: "int \<Rightarrow> orm_session \<Rightarrow> (error + unit) \<times> orm_session" where
  "cancel_room_booking bid s =
     (case find (\<lambda>b. booking_id b = bid) (room_bookings (db s)) of
        None \<Rightarrow> (Inl BookingNotFound, s)
      | Some booking \<Rightarrow>
          (let s1 = add (SetBookingStatus (booking_id booking) BOOKING_CANCELLED) s
           in (case commit s1 of
                 Inr s2 \<Rightarrow> (Inr (), s2)
               | Inl (ex, s2) \<Rightarrow> (Inl DatabaseError, rollback s2))))"

definition is_room_available :: "database \<Rightarrow> int \<Rightarrow> date \<Rightarrow> time_of_day \<Rightarrow> time_of_day \<Rightarrow> bool" where
  "is_room_available d rid bdate start_time end_time =
     (find (\<lambda>booking. start_time < rb_end_time booking \<and> rb_start_time booking < end_time)
        (existing_bookings d rid bdate) = None)"

definition create_class ::
  "datetime \<Rightarrow> string \<Rightarrow> int \<Rightarrow> int \<Rightarrow> datetime \<Rightarrow> int \<Rightarrow> int option \<Rightarrow> string option \<Rightarrow>
   orm_session \<Rightarrow> (error + FitnessClass) \<times> orm_session" where
  "create_class now name tid rid scheduled_time duration_minutes capacity description s =
     (if tid \<notin> set (trainers (db s)) then (Inl TrainerNotFound, s)
      else (case get_room_by_id (db s) rid of
        None \<Rightarrow> (Inl RoomNotFound, s)
      | Some room \<Rightarrow>
          if (case capacity of None \<Rightarrow> False | Some c \<Rightarrow> c > room_capacity room)
          then (Inl CapacityExceeded, s)
          else
            (let cap = (case capacity of None \<Rightarrow> room_capacity room | Some c \<Rightarrow> c)
             in if duration_minutes \<le> 0 then (Inl InvalidRange, s)
                else if scheduled_time < now then (Inl PastSchedule, s)
                else (case plus_minutes scheduled_time duration_minutes of
                  None \<Rightarrow> (Inl OverflowError, s)
                | Some end_time \<Rightarrow>
                    (let bdate = date_of scheduled_time;
                         start_time_only = time_of scheduled_time;
                         end_time_only = time_of end_time
                     in if \<not> is_room_available (db s) rid bdate start_time_only end_time_only
                        then (Inl RoomConflict, s)
                        else
                          (let fitness_class =
                                 \<lparr>class_id = 0, fc_name = name, fc_description = description,
                                  fc_trainer_id = tid, fc_room_id = rid,
                                  fc_scheduled_time = scheduled_time,
                                  fc_duration_minutes = duration_minutes, fc_capacity = cap,
                                  fc_status = CLASS_SCHEDULED\<rparr>;
                               s1 = add (AddFitnessClass fitness_class) s;
                               room_booking =
                                 \<lparr>booking_id = 0, rb_room_id = rid, booking_date = bdate,
                                  rb_start_time = start_time_only, rb_end_time = end_time_only,
                                  purpose = Some (''Fitness Class: '' @ name),
                                  booked_by_admin_id = None, rb_status = BOOKING_CONFIRMED\<rparr>;
                               s2 = add (AddRoomBooking room_booking) s1
                           in (case commit s2 of
                                 Inr s3 \<Rightarrow> (Inr (last (fitness_classes (db s3))), s3)
                               | Inl (ex, s3) \<Rightarrow> (Inl DatabaseError, rollback s3))))))))"

definition cancel_class :: "int \<Rightarrow> orm_session \<Rightarrow> (error + unit) \<times> orm_session" where
  "cancel_class cid s =
     (case find (\<lambda>c. class_id c = cid) (fitness_classes (db s)) of
        None \<Rightarrow> (Inl ClassNotFound, s)
      | Some fitness_class \<Rightarrow>
          (let s1 = add (SetClassStatus (class_id fitness_class) CLASS_CANCELLED) s
           in (case commit s1 of
                 Inr s2 \<Rightarrow> (Inr (), s2)
               | Inl (ex, s2) \<Rightarrow> (Inl DatabaseError, rollback s2))))"

section \<open>MemberService\<close>

definition raised :: "error \<Rightarrow> bool" where
  \<comment> \<open>the errors that are exceptions leaving the call, not failure results\<close>
  "raised e = (e = OverflowError \<or> e = AttributeError)"

text \<open>
  \<^verbatim>\<open>book_personal_training_session\<close>. The three conflict queries keep the source's
  filters: the session queries compare the stored start with the new window only, the
  room query asks for status \<^verbatim>\<open>CONFIRMED\<close>. \<^verbatim>\<open>if room_id:\<close> skips the room query
  for \<^verbatim>\<open>None\<close> and for \<^verbatim>\<open>0\<close>.
\<close>

definition book_personal_training_session ::
  "datetime \<Rightarrow> int \<Rightarrow> int \<Rightarrow> datetime \<Rightarrow> int \<Rightarrow> int option \<Rightarrow> string option \<Rightarrow>
   orm_session \<Rightarrow> (error + PersonalTrainingSession) \<times> orm_session" where
  "book_personal_training_session now mid tid scheduled_time duration_minutes rid notes s =
     (if mid \<notin> set (members (db s)) then (Inl MemberNotFound, s)
      else if tid \<notin> set (trainers (db s)) then (Inl TrainerNotFound, s)
      else if scheduled_time \<le> now then (Inl PastSchedule, s)
      else (case plus_minutes scheduled_time duration_minutes of
        None \<Rightarrow> (Inl OverflowError, s)
      | Some end_time \<Rightarrow>
          (let dow = day_of_week scheduled_time;
               start_time = time_of scheduled_time;
               trainer_available =
                 find (\<lambda>a. ta_trainer_id a = tid \<and> ta_day_of_week a = dow \<and>
                            ta_start_time a \<le> start_time \<and> ta_end_time a \<ge> time_of end_time)
                   (trainer_availability (db s));
               trainer_conflict =
                 find (\<lambda>p. pt_trainer_id p = tid \<and> pt_status p = SESSION_SCHEDULED \<and>
                            pt_scheduled_time p < end_time \<and> pt_scheduled_time p \<ge> scheduled_time)
                   (personal_training_sessions (db s));
               member_session_conflict =
                 find (\<lambda>p. pt_member_id p = mid \<and> pt_status p = SESSION_SCHEDULED \<and>
                            pt_scheduled_time p < end_time \<and> pt_scheduled_time p \<ge> scheduled_time)
                   (personal_training_sessions (db s));
               room_conflict =
                 (case rid of
                    None \<Rightarrow> None
                  | Some r \<Rightarrow>
                      if r = 0 then None
                      else find (\<lambda>b. rb_room_id b = r \<and> booking_date b = date_of scheduled_time \<and>
                                      rb_status b = BOOKING_CONFIRMED \<and>
                                      rb_start_time b < time_of end_time \<and> rb_end_time b > start_time)
                             (room_bookings (db s)))
           in if trainer_available = None then (Inl TrainerUnavailable, s)
              else if trainer_conflict \<noteq> None then (Inl TrainerConflict, s)
              else if member_session_conflict \<noteq> None then (Inl MemberConflict, s)
              else if room_conflict \<noteq> None then (Inl RoomConflict, s)
              else
                (let session = \<lparr>session_id = 0, pt_member_id = mid, pt_trainer_id = tid,
                                 pt_room_id = rid, pt_scheduled_time = scheduled_time,
                                 pt_duration_minutes = duration_minutes, pt_notes = notes,
                                 pt_status = SESSION_SCHEDULED\<rparr>;
                     s1 = add (AddSession session) s
                 in (case commit s1 of
                       Inr s2 \<Rightarrow> (Inr (last (personal_training_sessions (db s2))), s2)
                     | Inl (ex, s2) \<Rightarrow> (Inl DatabaseError, rollback s2))))))"

definition cancel_pt_session ::
  "datetime \<Rightarrow> int \<Rightarrow> int \<Rightarrow> orm_session \<Rightarrow> (error + unit) \<times> orm_session" where
  "cancel_pt_session now mid sid s =
     (case find (\<lambda>p. session_id p = sid \<and> pt_member_id p = mid)
             (personal_training_sessions (db s)) of
        None \<Rightarrow> (Inl SessionNotFound, s)
      | Some session \<Rightarrow>
          if pt_status session = SESSION_CANCELLED then (Inl AlreadyCancelled, s)
          else if pt_status session = SESSION_COMPLETED then (Inl AlreadyCompleted, s)
          else if pt_scheduled_time session \<le> now then (Inl PastSession, s)
          else
            (let s1 = add (SetSessionStatus (session_id session) SESSION_CANCELLED) s
             in (case commit s1 of
                   Inr s2 \<Rightarrow> (Inr (), s2)
                 | Inl (ex, s2) \<Rightarrow> (Inl DatabaseError, rollback s2))))"

text \<open>
  \<^verbatim>\<open>reschedule_pt_session\<close>. The assignment \<^verbatim>\<open>old_session.status = CANCELLED\<close> is a
  pending change when the booking runs. A booking that returns a failure is followed by
  \<^verbatim>\<open>self.session.rollback()\<close>; one that raises leaves the call at once.
\<close>

definition reschedule_pt_session ::
  "datetime \<Rightarrow> int \<Rightarrow> int \<Rightarrow> datetime \<Rightarrow> orm_session \<Rightarrow>
   (error + PersonalTrainingSession) \<times> orm_session" where
  "reschedule_pt_session now mid sid new_time s =
     (case find (\<lambda>p. session_id p = sid \<and> pt_member_id p = mid)
             (personal_training_sessions (db s)) of
        None \<Rightarrow> (Inl SessionNotFound, s)
      | Some old_session \<Rightarrow>
          if pt_status old_session \<noteq> SESSION_SCHEDULED then (Inl NotScheduled, s)
          else
            (let s1 = add (SetSessionStatus (session_id old_session) SESSION_CANCELLED) s
             in (case book_personal_training_session now mid (pt_trainer_id old_session) new_time
                        (pt_duration_minutes old_session) (pt_room_id old_session)
                        (pt_notes old_session) s1 of
                   (Inr data, s2) \<Rightarrow>
                     (case commit s2 of
                        Inr s3 \<Rightarrow> (Inr data, s3)
                      | Inl (ex, s3) \<Rightarrow> (Inl DatabaseError, s3))
                 | (Inl e, s2) \<Rightarrow>
                     if raised e then (Inl e, s2) else (Inl e, rollback s2))))"

definition register_for_class ::
  "datetime \<Rightarrow> int \<Rightarrow> int \<Rightarrow> orm_session \<Rightarrow> (error + ClassRegistration) \<times> orm_session" where
  "register_for_class now mid cid s =
     (if mid \<notin> set (members (db s)) then (Inl MemberNotFound, s)
      else (case find (\<lambda>c. class_id c = cid) (fitness_classes (db s)) of
        None \<Rightarrow> (Inl ClassNotFound, s)
      | Some fitness_class \<Rightarrow>
          if fc_status fitness_class \<noteq> CLASS_SCHEDULED then (Inl NotScheduled, s)
          else if fc_scheduled_time fitness_class \<le> now then (Inl PastClass, s)
          else if find (\<lambda>r. cr_member_id r = mid \<and> cr_class_id r = cid \<and>
                             (cr_status r = REG_REGISTERED \<or> cr_status r = REG_ATTENDED))
                    (class_registrations (db s)) \<noteq> None
          then (Inl AlreadyRegistered, s)
          else if int (length (filter (\<lambda>r. cr_class_id r = cid \<and> cr_status r = REG_REGISTERED)
                                 (class_registrations (db s)))) \<ge> fc_capacity fitness_class
          then (Inl ClassFull, s)
          else (case get_end_time fitness_class of
            None \<Rightarrow> (Inl OverflowError, s)
          | Some class_end_time \<Rightarrow>
              if find (\<lambda>p. pt_member_id p = mid \<and> pt_status p = SESSION_SCHEDULED \<and>
                           pt_scheduled_time p < class_end_time \<and>
                           pt_scheduled_time p \<ge> fc_scheduled_time fitness_class)
                   (personal_training_sessions (db s)) \<noteq> None
              then (Inl SessionConflict, s)
              else
                (let registration = \<lparr>registration_id = 0, cr_member_id = mid,
                                      cr_class_id = cid, cr_status = REG_REGISTERED\<rparr>;
                     s1 = add (AddClassRegistration registration) s
                 in (case commit s1 of
                       Inr s2 \<Rightarrow> (Inr (last (class_registrations (db s2))), s2)
                     | Inl (ex, s2) \<Rightarrow>
                         if ex = IntegrityError then (Inl AlreadyRegistered, rollback s2)
                         else (Inl DatabaseError, rollback s2))))))"

definition cancel_class_registration ::
  "datetime \<Rightarrow> int \<Rightarrow> int \<Rightarrow> orm_session \<Rightarrow> (error + unit) \<times> orm_session" where
  "cancel_class_registration now mid reg_id s =
     (case find (\<lambda>r. registration_id r = reg_id \<and> cr_member_id r = mid)
             (class_registrations (db s)) of
        None \<Rightarrow> (Inl RegistrationNotFound, s)
      | Some registration \<Rightarrow>
          if cr_status registration = REG_CANCELLED then (Inl AlreadyCancelled, s)
          else if cr_status registration = REG_ATTENDED then (Inl AttendedClass, s)
          else (case find (\<lambda>c. class_id c = cr_class_id registration) (fitness_classes (db s)) of
            None \<Rightarrow> (Inl AttributeError, s)
          | Some fitness_class \<Rightarrow>
              if fc_scheduled_time fitness_class \<le> now then (Inl ClassStarted, s)
              else
                (let s1 = add (SetRegistrationStatus (registration_id registration) REG_CANCELLED) s
                 in (case commit s1 of
                       Inr s2 \<Rightarrow> (Inr (), s2)
                     | Inl (ex, s2) \<Rightarrow> (Inl DatabaseError, rollback s2)))))"


section \<open>Sequences of administrative operations\<close>

datatype admin_op =
    BookRoom datetime int date time_of_day time_of_day "string option" "int option"
  | CreateClass datetime string int int datetime int "int option" "string option"
  | CancelRoomBooking int
  | CancelClass int

fun run_op :: "admin_op \<Rightarrow> orm_session \<Rightarrow> orm_session" where
  "run_op (BookRoom now rid bdate st en purp adm) s = snd (book_room now rid bdate st en purp adm s)"
| "run_op (CreateClass now name tid rid t dur cap descr) s =
     snd (create_class now name tid rid t dur cap descr s)"
| "run_op (CancelRoomBooking bid) s = snd (cancel_room_booking bid s)"
| "run_op (CancelClass cid) s = snd (cancel_class cid s)"

definition run_ops :: "admin_op list \<Rightarrow> orm_session \<Rightarrow> orm_session" where
  "run_ops ops s = fold run_op ops s"

section \<open>Scenario data\<close>

text \<open>
  The values of the specification's scenarios: 2025-06-01 is day 739402 and a Sunday,
  2025-06-02 is day 739403 and a Monday; 09:00 is 32400000000 microseconds after midnight.
\<close>

definition hm :: "int \<Rightarrow> int \<Rightarrow> time_of_day" where
  \<comment> \<open>\<^verbatim>\<open>time(h, m)\<close>\<close>
  "hm h m = (h * 60 + m) * MINUTE"

definition at :: "date \<Rightarrow> time_of_day \<Rightarrow> datetime" where
  \<comment> \<open>\<^verbatim>\<open>datetime.combine(d, t)\<close>\<close>
  "at d t = d * DAY + t"

definition studio_9_10 :: RoomBooking where
  "studio_9_10 = \<lparr>booking_id = 1, rb_room_id = 1, booking_date = 739402,
     rb_start_time = hm 9 0, rb_end_time = hm 10 0, purpose = None,
     booked_by_admin_id = None, rb_status = BOOKING_CONFIRMED\<rparr>"

section \<open>The room-booking invariant\<close>

text \<open>
  The invariant as the specification words it, on the rows of the table: two different
  rows of the same room and date, neither cancelled, do not overlap. \<open>conflict_free\<close>
  is the same property through \<^verbatim>\<open>conflicts_with\<close>.
\<close>

definition no_double_booking :: "RoomBooking list \<Rightarrow> bool" where
  "no_double_booking bs =
     (\<forall>i j. i < length bs \<and> j < length bs \<and> i \<noteq> j \<and>
        rb_room_id (bs ! i) = rb_room_id (bs ! j) \<and> booking_date (bs ! i) = booking_date (bs ! j) \<and>
        rb_status (bs ! i) \<noteq> BOOKING_CANCELLED \<and> rb_status (bs ! j) \<noteq> BOOKING_CANCELLED \<longrightarrow>
        \<not> (rb_start_time (bs ! i) < rb_end_time (bs ! j) \<and>
           rb_start_time (bs ! j) < rb_end_time (bs ! i)))"

definition conflict_free :: "RoomBooking list \<Rightarrow> bool" where
  "conflict_free bs = sorted_wrt (\<lambda>a b. \<not> conflicts_with a b) bs"

definition clean_conflict_free :: "orm_session \<Rightarrow> bool" where
  "clean_conflict_free s = (pending s = [] \<and> conflict_free (room_bookings (db s)))"

section \<open>Scenario states\<close>

text \<open>
  \<open>club0\<close> is a club with one member, one trainer, one admin and the room "Studio A"
  of capacity 30, on a psycopg2 connection; the clock \<open>now0\<close> is 2025-05-01 12:00. The other states are reached
  by running the services from \<open>club0\<close>: a booking of the room, a class with one registration
  that is then cancelled, a room booking that is cancelled, and a club with two members
  and two trainers available on Mondays 09:00--12:00, where member 2 books trainer 1 on
  Monday 2025-06-02 at 09:00 for 60 minutes.
\<close>

definition club0 :: orm_session where
  "club0 = \<lparr>db = \<lparr>members = [1], trainers = [1], admins = [1],
       rooms = [\<lparr>room_id = 1, room_name = ''Studio A'', room_capacity = 30\<rparr>],
       room_bookings = [], trainer_availability = [], fitness_classes = [],
       class_registrations = [], personal_training_sessions = []\<rparr>,
     seqs = \<lparr>booking_seq = 1, class_seq = 1, registration_seq = 1, session_seq = 1\<rparr>,
     keys_before_values = False, pending = []\<rparr>"

definition now0 :: datetime where
  "now0 = at 739371 (hm 12 0)"

definition club1 :: orm_session where
  "club1 = snd (book_room now0 1 739402 (hm 9 0) (hm 10 0) None (Some 1) club0)"

definition scenario_ops :: "admin_op list" where
  "scenario_ops =
     [BookRoom now0 1 739402 (hm 9 0) (hm 10 0) None (Some 1),
      BookRoom now0 1 739402 (hm 9 30) (hm 10 30) None (Some 1),
      BookRoom now0 1 739402 (hm 14 0) (hm 15 0) None (Some 7),
      BookRoom now0 1 739402 (hm 10 0) (hm 11 0) None (Some 1),
      CreateClass now0 ''Yoga'' 1 1 (at 739402 (hm 11 0)) 60 None None,
      CancelRoomBooking 1]"

definition yoga_club :: orm_session where
  "yoga_club = snd (create_class now0 ''Yoga'' 1 1 (at 739403 (hm 9 0)) 60 (Some 10) None club0)"

definition yoga_registered :: orm_session where
  "yoga_registered = snd (register_for_class now0 1 1 yoga_club)"

definition yoga_cancelled :: orm_session where
  "yoga_cancelled = snd (cancel_class_registration now0 1 1 yoga_registered)"

definition club1_cancelled :: orm_session where
  "club1_cancelled = snd (cancel_room_booking 1 club1)"

definition pt_club :: orm_session where
  "pt_club = club0\<lparr>db := (db club0)\<lparr>members := [1, 2], trainers := [1, 2],
       trainer_availability :=
         [\<lparr>availability_id = 1, ta_trainer_id = 1, ta_day_of_week = MONDAY,
           ta_start_time = hm 9 0, ta_end_time = hm 12 0\<rparr>,
          \<lparr>availability_id = 2, ta_trainer_id = 2, ta_day_of_week = MONDAY,
           ta_start_time = hm 9 0, ta_end_time = hm 12 0\<rparr>]\<rparr>\<rparr>"

definition pt_booked :: orm_session where
  "pt_booked = snd (book_personal_training_session now0 2 1 (at 739403 (hm 9 0)) 60 None None pt_club)"

definition pt_cancelled :: orm_session where
  "pt_cancelled = snd (cancel_pt_session now0 2 1 pt_booked)"

text \<open>A class on 2025-06-01 from 23:30 for 60 minutes, created in \<open>club0\<close>.\<close>

definition midnight_club :: orm_session where
  "midnight_club = snd (create_class now0 ''Late'' 1 1 (at 739402 (hm 23 30)) 60 None None club0)"

section \<open>The queries of the session booking as predicates\<close>

text \<open>
  Each predicate says that the corresponding query of
  \<^verbatim>\<open>book_personal_training_session\<close> returns a row: an availability window of the
  trainer on the weekday of \<open>t\<close> with \<open>start \<le> t.time()\<close> and \<open>end \<ge> e.time()\<close>; a
  scheduled session of the trainer, or of the member, whose start lies in \<open>[t, e)\<close>.
\<close>

definition trainer_window :: "database \<Rightarrow> int \<Rightarrow> datetime \<Rightarrow> datetime \<Rightarrow> bool" where
  "trainer_window d tid t e =
     (\<exists>a\<in>set (trainer_availability d).
        ta_trainer_id a = tid \<and> ta_day_of_week a = day_of_week t \<and>
        ta_start_time a \<le> time_of t \<and> time_of e \<le> ta_end_time a)"

definition trainer_start_in :: "database \<Rightarrow> int \<Rightarrow> datetime \<Rightarrow> datetime \<Rightarrow> bool" where
  "trainer_start_in d tid t e =
     (\<exists>p\<in>set (personal_training_sessions d).
        pt_trainer_id p = tid \<and> pt_status p = SESSION_SCHEDULED \<and>
        t \<le> pt_scheduled_time p \<and> pt_scheduled_time p < e)"

definition member_start_in :: "database \<Rightarrow> int \<Rightarrow> datetime \<Rightarrow> datetime \<Rightarrow> bool" where
  "member_start_in d mid t e =
     (\<exists>p\<in>set (personal_training_sessions d).
        pt_member_id p = mid \<and> pt_status p = SESSION_SCHEDULED \<and>
        t \<le> pt_scheduled_time p \<and> pt_scheduled_time p < e)"

section \<open>Auxiliary facts\<close>

lemma conflicts_with_commute: "conflicts_with a b = conflicts_with b a"
  by (auto simp: conflicts_with_def)

lemma conflicts_with_iff:
  "conflicts_with a b \<longleftrightarrow>
     rb_room_id a = rb_room_id b \<and> booking_date a = booking_date b \<and>
     rb_status a \<noteq> BOOKING_CANCELLED \<and> rb_status b \<noteq> BOOKING_CANCELLED \<and>
     rb_start_time a < rb_end_time b \<and> rb_start_time b < rb_end_time a"
  by (auto simp: conflicts_with_def)

lemma overlaps_with_iff:
  "overlaps_with x y \<longleftrightarrow>
     ta_trainer_id x = ta_trainer_id y \<and> ta_day_of_week x = ta_day_of_week y \<and>
     ta_start_time x < ta_end_time y \<and> ta_start_time y < ta_end_time x"
  by (auto simp: overlaps_with_def)

lemma hm_values:
  "hm 0 0 = 0" "hm 0 30 = 1800000000" "hm 9 0 = 32400000000" "hm 9 30 = 34200000000"
  "hm 10 0 = 36000000000" "hm 10 30 = 37800000000" "hm 11 0 = 39600000000"
  "hm 11 30 = 41400000000" "hm 12 0 = 43200000000" "hm 12 30 = 45000000000"
  "hm 23 30 = 84600000000" "hm 23 45 = 85500000000"
  by (simp_all add: hm_def MINUTE_def)

lemmas eval_defs =
  book_room_def create_class_def cancel_room_booking_def cancel_class_def
  register_for_class_def cancel_class_registration_def
  book_personal_training_session_def cancel_pt_session_def reschedule_pt_session_def
  day_of_week_def raised_def
  is_room_available_def conflicts_with_def plus_minutes_def get_end_time_def
  get_room_by_id_def existing_bookings_def time_of_def date_of_def
  MAX_DATETIME_def MINUTE_def DAY_def commit_def add_def rollback_def
  insert_row_def int32_def INT_MAX_def no_nul_def nullable_def
  now0_def at_def hm_def

section \<open>The conflict predicates\<close>

text \<open>
  Claim C4. The conflict predicate of the room bookings is true exactly when the two
  bookings have the same room and the same date, neither is cancelled, and
  \<open>start_a < end_b\<close> and \<open>start_b < end_a\<close>. The predicate of the availability slots is
  the same test on trainer and weekday; a slot has no cancelled state. Two intervals that
  touch at an endpoint do not conflict, in either order. Both predicates are functions of
  their two arguments alone: they read the fields and change nothing.
\<close>

theorem conflict_checker_contract:
  "(conflicts_with a b \<longleftrightarrow>
      rb_room_id a = rb_room_id b \<and> booking_date a = booking_date b \<and>
      rb_status a \<noteq> BOOKING_CANCELLED \<and> rb_status b \<noteq> BOOKING_CANCELLED \<and>
      rb_start_time a < rb_end_time b \<and> rb_start_time b < rb_end_time a) \<and>
   (overlaps_with x y \<longleftrightarrow>
      ta_trainer_id x = ta_trainer_id y \<and> ta_day_of_week x = ta_day_of_week y \<and>
      ta_start_time x < ta_end_time y \<and> ta_start_time y < ta_end_time x) \<and>
   (rb_end_time a = rb_start_time b \<longrightarrow> \<not> conflicts_with a b \<and> \<not> conflicts_with b a) \<and>
   (ta_end_time x = ta_start_time y \<longrightarrow> \<not> overlaps_with x y \<and> \<not> overlaps_with y x)"
  by (auto simp: conflicts_with_iff overlaps_with_iff)

theorem conflict_checker_contract_witness:
  "rb_end_time studio_9_10 =
     rb_start_time (studio_9_10\<lparr>booking_id := 2, rb_start_time := hm 10 0, rb_end_time := hm 11 0\<rparr>) \<and>
   \<not> conflicts_with studio_9_10
       (studio_9_10\<lparr>booking_id := 2, rb_start_time := hm 10 0, rb_end_time := hm 11 0\<rparr>) \<and>
   conflicts_with studio_9_10
     (studio_9_10\<lparr>booking_id := 2, rb_start_time := hm 9 30, rb_end_time := hm 10 30\<rparr>)"
  using
    conflict_checker_contract [of studio_9_10
      "studio_9_10\<lparr>booking_id := 2, rb_start_time := hm 10 0, rb_end_time := hm 11 0\<rparr>"]
    conflict_checker_contract [of studio_9_10
      "studio_9_10\<lparr>booking_id := 2, rb_start_time := hm 9 30, rb_end_time := hm 10 30\<rparr>"]
  by (simp add: studio_9_10_def hm_values)

text \<open>
  Claim C10. Both conflict predicates are symmetric: \<open>a.conflicts_with(b)\<close> equals
  \<open>b.conflicts_with(a)\<close> for all room bookings, and \<open>a.overlaps_with(b)\<close> equals
  \<open>b.overlaps_with(a)\<close> for all availability slots.
\<close>

theorem conflict_predicates_symmetric:
  "conflicts_with a b = conflicts_with b a \<and> overlaps_with x y = overlaps_with y x"
  by (auto simp: conflicts_with_iff overlaps_with_iff)

section \<open>Room bookings\<close>

lemma conflict_free_append:
  "conflict_free (bs @ [n]) \<longleftrightarrow> conflict_free bs \<and> (\<forall>x\<in>set bs. \<not> conflicts_with n x)"
  by (auto simp: conflict_free_def sorted_wrt_append conflicts_with_commute)

lemma conflict_free_cancel:
  assumes "conflict_free bs"
  shows "conflict_free (map (\<lambda>b. if booking_id b = i then b\<lparr>rb_status := BOOKING_CANCELLED\<rparr> else b) bs)"
proof -
  have "sorted_wrt (\<lambda>a b. \<not> conflicts_with a b) bs"
    using assms by (simp add: conflict_free_def)
  then have "sorted_wrt (\<lambda>x y. \<not> conflicts_with
        (if booking_id x = i then x\<lparr>rb_status := BOOKING_CANCELLED\<rparr> else x)
        (if booking_id y = i then y\<lparr>rb_status := BOOKING_CANCELLED\<rparr> else y)) bs"
    by (rule sorted_wrt_mono_rel[rotated]) (auto simp: conflicts_with_iff)
  then show ?thesis
    by (simp add: conflict_free_def sorted_wrt_map)
qed

lemma conflict_free_nth:
  assumes "conflict_free bs" "i < length bs" "j < length bs" "i \<noteq> j"
  shows "\<not> conflicts_with (bs ! i) (bs ! j)"
proof (cases "i < j")
  case True
  then show ?thesis
    using assms by (simp add: conflict_free_def sorted_wrt_iff_nth_less)
next
  case False
  then have "j < i" using assms by simp
  then have "\<not> conflicts_with (bs ! j) (bs ! i)"
    using assms by (simp add: conflict_free_def sorted_wrt_iff_nth_less)
  then show ?thesis by (simp add: conflicts_with_commute)
qed

lemma no_conflict_existing:
  assumes "find (\<lambda>b. conflicts_with n b) (existing_bookings d (rb_room_id n) (booking_date n)) = None"
  shows "\<forall>x\<in>set (room_bookings d). \<not> conflicts_with n x"
  using assms by (auto simp: find_None_iff existing_bookings_def conflicts_with_iff)

lemma available_no_conflict:
  assumes "is_room_available d rid bdate st en"
    and "rb_room_id n = rid" "booking_date n = bdate" "rb_start_time n = st" "rb_end_time n = en"
  shows "\<forall>x\<in>set (room_bookings d). \<not> conflicts_with n x"
  using assms by (auto simp: is_room_available_def find_None_iff existing_bookings_def conflicts_with_iff)

lemma commit_raises:
  assumes "commit s1 = Inl (ex, s2)"
  shows "db s2 = db s1" "pending s2 = pending s1"
    "keys_before_values s2 = keys_before_values s1"
  using assms by (auto simp: commit_def split: prod.splits sum.splits)

lemma commit_add_booking:
  assumes "pending s = []" "commit (add (AddRoomBooking b) s) = Inr s'"
  shows "s' = s\<lparr>db := (db s)\<lparr>room_bookings :=
                 room_bookings (db s) @ [b\<lparr>booking_id := booking_seq (seqs s)\<rparr>]\<rparr>,
              seqs := (seqs s)\<lparr>booking_seq := booking_seq (seqs s) + 1\<rparr>\<rparr>"
  using assms
  by (auto simp: commit_def add_def insert_row_def split: if_splits prod.splits sum.splits)

lemma commit_add_class_booking:
  assumes "pending s = []" "commit (add (AddRoomBooking b) (add (AddFitnessClass c) s)) = Inr s'"
  shows "s' = s\<lparr>db := (db s)\<lparr>
                 fitness_classes := fitness_classes (db s) @ [c\<lparr>class_id := class_seq (seqs s)\<rparr>],
                 room_bookings :=
                   room_bookings (db s) @ [b\<lparr>booking_id := booking_seq (seqs s)\<rparr>]\<rparr>,
              seqs := (seqs s)\<lparr>class_seq := class_seq (seqs s) + 1,
                               booking_seq := booking_seq (seqs s) + 1\<rparr>\<rparr>"
  using assms
  by (auto simp: commit_def add_def insert_row_def split: if_splits prod.splits sum.splits)

lemma commit_set_booking_status:
  assumes "pending s = []" "commit (add (SetBookingStatus i st) s) = Inr s'"
  shows "pending s' = [] \<and> room_bookings (db s') =
           map (\<lambda>b. if booking_id b = i then b\<lparr>rb_status := st\<rparr> else b) (room_bookings (db s))"
  using assms by (auto simp: commit_def add_def split: if_splits prod.splits sum.splits)

lemma commit_set_class_status:
  assumes "pending s = []" "commit (add (SetClassStatus i st) s) = Inr s'"
  shows "pending s' = [] \<and> room_bookings (db s') = room_bookings (db s)"
  using assms by (auto simp: commit_def add_def split: if_splits prod.splits sum.splits)

lemma rollback_clean: "pending (rollback s) = [] \<and> db (rollback s) = db s"
  by (simp add: rollback_def)

lemma add_db: "db (add c s) = db s"
  by (simp add: add_def)

lemma raised_keeps_clean:
  assumes "clean_conflict_free s" "commit s1 = Inl (ex, s2)" "db s1 = db s"
  shows "clean_conflict_free (rollback s2)"
  using assms commit_raises(1)[OF assms(2)]
  by (simp add: clean_conflict_free_def rollback_clean)

lemma book_room_preserves:
  assumes "clean_conflict_free s"
  shows "clean_conflict_free (snd (book_room now rid bdate st en purp adm s))"
proof -
  let ?n = "\<lparr>booking_id = 0, rb_room_id = rid, booking_date = bdate,
              rb_start_time = st, rb_end_time = en, purpose = purp,
              booked_by_admin_id = adm, rb_status = BOOKING_CONFIRMED\<rparr>"
  have clean: "pending s = []" and cf: "conflict_free (room_bookings (db s))"
    using assms by (simp_all add: clean_conflict_free_def)
  {
    fix s'
    assume nf: "find (\<lambda>b. conflicts_with ?n b) (existing_bookings (db s) rid bdate) = None"
      and c: "commit (add (AddRoomBooking ?n) s) = Inr s'"
    have "\<forall>x\<in>set (room_bookings (db s)). \<not> conflicts_with ?n x"
      using no_conflict_existing[of ?n "db s"] nf by simp
    then have "\<forall>x\<in>set (room_bookings (db s)). \<not> conflicts_with (?n\<lparr>booking_id := booking_seq (seqs s)\<rparr>) x"
      by (simp add: conflicts_with_iff)
    with commit_add_booking[OF clean c] cf clean have "clean_conflict_free s'"
      by (simp add: clean_conflict_free_def conflict_free_append)
  }
  then show ?thesis
    using assms
    by (auto simp: book_room_def Let_def add_db intro: raised_keeps_clean
             split: option.splits sum.splits)
qed

lemma create_class_preserves:
  assumes "clean_conflict_free s"
  shows "clean_conflict_free (snd (create_class now name tid rid t dur cap descr s))"
proof -
  have clean: "pending s = []" and cf: "conflict_free (room_bookings (db s))"
    using assms by (simp_all add: clean_conflict_free_def)
  {
    fix s' e c
    let ?b = "\<lparr>booking_id = 0, rb_room_id = rid, booking_date = date_of t,
                rb_start_time = time_of t, rb_end_time = time_of e,
                purpose = Some (''Fitness Class: '' @ name),
                booked_by_admin_id = None, rb_status = BOOKING_CONFIRMED\<rparr>"
    assume av: "is_room_available (db s) rid (date_of t) (time_of t) (time_of e)"
      and c: "commit (add (AddRoomBooking ?b) (add (AddFitnessClass c) s)) = Inr s'"
    have "\<forall>x\<in>set (room_bookings (db s)). \<not> conflicts_with (?b\<lparr>booking_id := booking_seq (seqs s)\<rparr>) x"
      by (rule available_no_conflict[OF av]) simp_all
    with commit_add_class_booking[OF clean c] cf clean have "clean_conflict_free s'"
      by (simp add: clean_conflict_free_def conflict_free_append)
  }
  then show ?thesis
    using assms
    by (auto simp: create_class_def Let_def add_db intro: raised_keeps_clean
             split: option.splits sum.splits)
qed

lemma cancel_room_booking_preserves:
  assumes "clean_conflict_free s"
  shows "clean_conflict_free (snd (cancel_room_booking bid s))"
proof -
  have clean: "pending s = []" and cf: "conflict_free (room_bookings (db s))"
    using assms by (simp_all add: clean_conflict_free_def)
  {
    fix s' i
    assume c: "commit (add (SetBookingStatus i BOOKING_CANCELLED) s) = Inr s'"
    with commit_set_booking_status[OF clean c] conflict_free_cancel[OF cf, of i]
    have "clean_conflict_free s'"
      by (simp add: clean_conflict_free_def)
  }
  then show ?thesis
    using assms
    by (auto simp: cancel_room_booking_def Let_def add_db intro: raised_keeps_clean
             split: option.splits sum.splits)
qed

lemma cancel_class_preserves:
  assumes "clean_conflict_free s"
  shows "clean_conflict_free (snd (cancel_class cid s))"
proof -
  have clean: "pending s = []" and cf: "conflict_free (room_bookings (db s))"
    using assms by (simp_all add: clean_conflict_free_def)
  {
    fix s' i
    assume c: "commit (add (SetClassStatus i CLASS_CANCELLED) s) = Inr s'"
    with commit_set_class_status[OF clean c] cf
    have "clean_conflict_free s'"
      by (simp add: clean_conflict_free_def)
  }
  then show ?thesis
    using assms
    by (auto simp: cancel_class_def Let_def add_db intro: raised_keeps_clean
             split: option.splits sum.splits)
qed

lemma run_op_preserves:
  "clean_conflict_free s \<Longrightarrow> clean_conflict_free (run_op op s)"
  by (cases op)
     (simp_all add: book_room_preserves create_class_preserves
        cancel_room_booking_preserves cancel_class_preserves)

lemma run_ops_preserves:
  "clean_conflict_free s \<Longrightarrow> clean_conflict_free (run_ops ops s)"
  unfolding run_ops_def
  by (induction ops arbitrary: s) (simp_all add: run_op_preserves)


lemma no_double_booking_iff: "no_double_booking bs \<longleftrightarrow> conflict_free bs"
proof
  assume "conflict_free bs"
  then show "no_double_booking bs"
    unfolding no_double_booking_def
    using conflict_free_nth[of bs] by (auto simp: conflicts_with_iff)
next
  assume n: "no_double_booking bs"
  have "\<not> conflicts_with (bs ! i) (bs ! j)" if "i < j" "j < length bs" for i j
  proof -
    have "i < length bs" "i \<noteq> j" using that by simp_all
    with n that show ?thesis
      unfolding no_double_booking_def conflicts_with_iff by blast
  qed
  then show "conflict_free bs"
    by (simp add: conflict_free_def sorted_wrt_iff_nth_less)
qed

lemma get_room_by_id_Some:
  "get_room_by_id d rid = Some r \<Longrightarrow> rid \<in> set (map room_id (rooms d))"
  by (auto simp: get_room_by_id_def find_Some_iff)

lemma book_room_conflict:
  assumes room: "get_room_by_id (db s) rid = Some room"
    and range: "st < en" and day: "date_of now \<le> bdate"
    and b: "b \<in> set (room_bookings (db s))" "rb_room_id b = rid" "booking_date b = bdate"
      "rb_status b \<noteq> BOOKING_CANCELLED" "st < rb_end_time b" "rb_start_time b < en"
  shows "\<exists>c\<in>set (room_bookings (db s)).
           rb_room_id c = rid \<and> booking_date c = bdate \<and> rb_status c \<noteq> BOOKING_CANCELLED \<and>
           st < rb_end_time c \<and> rb_start_time c < en \<and>
           book_room now rid bdate st en purp adm s =
             (Inl (Conflict (rb_start_time c) (rb_end_time c)), s)"
proof -
  let ?n = "\<lparr>booking_id = 0, rb_room_id = rid, booking_date = bdate,
              rb_start_time = st, rb_end_time = en, purpose = purp,
              booked_by_admin_id = adm, rb_status = BOOKING_CONFIRMED\<rparr>"
  have "b \<in> set (existing_bookings (db s) rid bdate)" "conflicts_with ?n b"
    using b by (simp_all add: existing_bookings_def conflicts_with_iff)
  then have "find (\<lambda>x. conflicts_with ?n x) (existing_bookings (db s) rid bdate) \<noteq> None"
    by (auto simp: find_None_iff)
  then obtain c where c: "find (\<lambda>x. conflicts_with ?n x) (existing_bookings (db s) rid bdate) = Some c"
    by blast
  then have "c \<in> set (existing_bookings (db s) rid bdate)" "conflicts_with ?n c"
    by (auto simp: find_Some_iff)
  then have "c \<in> set (room_bookings (db s))" "rb_room_id c = rid" "booking_date c = bdate"
    "rb_status c \<noteq> BOOKING_CANCELLED" "st < rb_end_time c" "rb_start_time c < en"
    by (simp_all add: existing_bookings_def conflicts_with_iff)
  moreover have "book_room now rid bdate st en purp adm s =
      (Inl (Conflict (rb_start_time c) (rb_end_time c)), s)"
    using room range day c by (simp add: book_room_def)
  ultimately show ?thesis by blast
qed

lemma book_room_accepts:
  assumes clean: "pending s = []"
    and room: "get_room_by_id (db s) rid = Some room"
    and range: "st < en" and day: "date_of now \<le> bdate"
    and nonul: "nullable no_nul purp"
    and vals: "int32 rid" "nullable int32 adm" "booking_seq (seqs s) \<le> INT_MAX"
    and adm: "nullable (\<lambda>a. a \<in> set (admins (db s))) adm"
    and free: "\<forall>x\<in>set (room_bookings (db s)).
        rb_room_id x = rid \<and> booking_date x = bdate \<and> rb_status x \<noteq> BOOKING_CANCELLED \<longrightarrow>
        rb_end_time x \<le> st \<or> en \<le> rb_start_time x"
  shows "book_room now rid bdate st en purp adm s =
           (Inr \<lparr>booking_id = booking_seq (seqs s), rb_room_id = rid, booking_date = bdate,
                 rb_start_time = st, rb_end_time = en, purpose = purp,
                 booked_by_admin_id = adm, rb_status = BOOKING_CONFIRMED\<rparr>,
            s\<lparr>db := (db s)\<lparr>room_bookings := room_bookings (db s) @
                   [\<lparr>booking_id = booking_seq (seqs s), rb_room_id = rid, booking_date = bdate,
                     rb_start_time = st, rb_end_time = en, purpose = purp,
                     booked_by_admin_id = adm, rb_status = BOOKING_CONFIRMED\<rparr>]\<rparr>,
               seqs := (seqs s)\<lparr>booking_seq := booking_seq (seqs s) + 1\<rparr>\<rparr>)"
proof -
  let ?n = "\<lparr>booking_id = 0, rb_room_id = rid, booking_date = bdate,
              rb_start_time = st, rb_end_time = en, purpose = purp,
              booked_by_admin_id = adm, rb_status = BOOKING_CONFIRMED\<rparr>"
  have nf: "find (\<lambda>x. conflicts_with ?n x) (existing_bookings (db s) rid bdate) = None"
    using free by (fastforce simp: find_None_iff existing_bookings_def conflicts_with_iff)
  have fk: "rid \<in> set (map room_id (rooms (db s)))"
    using room by (rule get_room_by_id_Some)
  have "\<exists>s'. commit (add (AddRoomBooking ?n) s) = Inr s'"
    using clean fk adm nonul vals by (simp add: commit_def add_def insert_row_def)
  then obtain s' where c: "commit (add (AddRoomBooking ?n) s) = Inr s'" by blast
  have s': "s' = s\<lparr>db := (db s)\<lparr>room_bookings :=
                 room_bookings (db s) @ [?n\<lparr>booking_id := booking_seq (seqs s)\<rparr>]\<rparr>,
              seqs := (seqs s)\<lparr>booking_seq := booking_seq (seqs s) + 1\<rparr>\<rparr>"
    using clean c by (rule commit_add_booking)
  have "book_room now rid bdate st en purp adm s = (Inr (last (room_bookings (db s'))), s')"
    using room range day nf c by (simp add: book_room_def)
  then show ?thesis
    by (simp add: s')
qed

text \<open>
  Claim C1. From a session with nothing pending whose room bookings satisfy the
  invariant (the empty table does), every sequence of \<^verbatim>\<open>book_room\<close>,
  \<^verbatim>\<open>create_class\<close>, \<^verbatim>\<open>cancel_room_booking\<close> and \<^verbatim>\<open>cancel_class\<close> calls, accepted
  or refused, leaves a table in which no two different non-cancelled bookings of one room
  and date overlap. When the room exists, the range is valid, the date is not past and
  some non-cancelled booking of that room and date overlaps the request, \<^verbatim>\<open>book_room\<close>
  returns the conflict naming the window of such a booking and changes nothing. When
  every non-cancelled booking of that room and date ends at or before the requested start
  or starts at or after the requested end (touching included), and the row can be stored
  (a purpose without NUL, room and admin keys of 32 bits, an existing admin if one is
  given, a sequence that is not exhausted), the request is accepted: the confirmed
  booking is appended under the next key.
\<close>

theorem room_no_double_booking:
  "(pending s = [] \<and> no_double_booking (room_bookings (db s)) \<longrightarrow>
      no_double_booking (room_bookings (db (run_ops ops s)))) \<and>
   (get_room_by_id (db s) rid = Some room \<and> st < en \<and> date_of now \<le> bdate \<and>
    b \<in> set (room_bookings (db s)) \<and> rb_room_id b = rid \<and> booking_date b = bdate \<and>
    rb_status b \<noteq> BOOKING_CANCELLED \<and> st < rb_end_time b \<and> rb_start_time b < en \<longrightarrow>
      (\<exists>c\<in>set (room_bookings (db s)).
         rb_room_id c = rid \<and> booking_date c = bdate \<and> rb_status c \<noteq> BOOKING_CANCELLED \<and>
         st < rb_end_time c \<and> rb_start_time c < en \<and>
         book_room now rid bdate st en purp adm s =
           (Inl (Conflict (rb_start_time c) (rb_end_time c)), s))) \<and>
   (pending s = [] \<and> get_room_by_id (db s) rid = Some room \<and> st < en \<and> date_of now \<le> bdate \<and>
    nullable no_nul purp \<and> int32 rid \<and> nullable int32 adm \<and>
    booking_seq (seqs s) \<le> INT_MAX \<and>
    nullable (\<lambda>a. a \<in> set (admins (db s))) adm \<and>
    (\<forall>x\<in>set (room_bookings (db s)).
        rb_room_id x = rid \<and> booking_date x = bdate \<and> rb_status x \<noteq> BOOKING_CANCELLED \<longrightarrow>
        rb_end_time x \<le> st \<or> en \<le> rb_start_time x) \<longrightarrow>
      book_room now rid bdate st en purp adm s =
        (Inr \<lparr>booking_id = booking_seq (seqs s), rb_room_id = rid, booking_date = bdate,
              rb_start_time = st, rb_end_time = en, purpose = purp,
              booked_by_admin_id = adm, rb_status = BOOKING_CONFIRMED\<rparr>,
         s\<lparr>db := (db s)\<lparr>room_bookings := room_bookings (db s) @
                [\<lparr>booking_id = booking_seq (seqs s), rb_room_id = rid, booking_date = bdate,
                  rb_start_time = st, rb_end_time = en, purpose = purp,
                  booked_by_admin_id = adm, rb_status = BOOKING_CONFIRMED\<rparr>]\<rparr>,
            seqs := (seqs s)\<lparr>booking_seq := booking_seq (seqs s) + 1\<rparr>\<rparr>))"
proof (intro conjI impI)
  assume "pending s = [] \<and> no_double_booking (room_bookings (db s))"
  then have "clean_conflict_free s"
    by (simp add: clean_conflict_free_def no_double_booking_iff)
  then have "clean_conflict_free (run_ops ops s)"
    by (rule run_ops_preserves)
  then show "no_double_booking (room_bookings (db (run_ops ops s)))"
    by (simp add: clean_conflict_free_def no_double_booking_iff)
next
  assume "get_room_by_id (db s) rid = Some room \<and> st < en \<and> date_of now \<le> bdate \<and>
    b \<in> set (room_bookings (db s)) \<and> rb_room_id b = rid \<and> booking_date b = bdate \<and>
    rb_status b \<noteq> BOOKING_CANCELLED \<and> st < rb_end_time b \<and> rb_start_time b < en"
  then show "\<exists>c\<in>set (room_bookings (db s)).
         rb_room_id c = rid \<and> booking_date c = bdate \<and> rb_status c \<noteq> BOOKING_CANCELLED \<and>
         st < rb_end_time c \<and> rb_start_time c < en \<and>
         book_room now rid bdate st en purp adm s =
           (Inl (Conflict (rb_start_time c) (rb_end_time c)), s)"
    using book_room_conflict[of s rid room st en now bdate b purp adm] by blast
next
  assume h: "pending s = [] \<and> get_room_by_id (db s) rid = Some room \<and> st < en \<and> date_of now \<le> bdate \<and>
    nullable no_nul purp \<and> int32 rid \<and> nullable int32 adm \<and>
    booking_seq (seqs s) \<le> INT_MAX \<and>
    nullable (\<lambda>a. a \<in> set (admins (db s))) adm \<and>
    (\<forall>x\<in>set (room_bookings (db s)).
        rb_room_id x = rid \<and> booking_date x = bdate \<and> rb_status x \<noteq> BOOKING_CANCELLED \<longrightarrow>
        rb_end_time x \<le> st \<or> en \<le> rb_start_time x)"
  then have a: "pending s = []" "get_room_by_id (db s) rid = Some room" "st < en"
    "date_of now \<le> bdate" "nullable no_nul purp" "int32 rid" "nullable int32 adm"
    "booking_seq (seqs s) \<le> INT_MAX" "nullable (\<lambda>a. a \<in> set (admins (db s))) adm"
    "\<forall>x\<in>set (room_bookings (db s)).
        rb_room_id x = rid \<and> booking_date x = bdate \<and> rb_status x \<noteq> BOOKING_CANCELLED \<longrightarrow>
        rb_end_time x \<le> st \<or> en \<le> rb_start_time x"
    by simp_all
  show "book_room now rid bdate st en purp adm s =
        (Inr \<lparr>booking_id = booking_seq (seqs s), rb_room_id = rid, booking_date = bdate,
              rb_start_time = st, rb_end_time = en, purpose = purp,
              booked_by_admin_id = adm, rb_status = BOOKING_CONFIRMED\<rparr>,
         s\<lparr>db := (db s)\<lparr>room_bookings := room_bookings (db s) @
                [\<lparr>booking_id = booking_seq (seqs s), rb_room_id = rid, booking_date = bdate,
                  rb_start_time = st, rb_end_time = en, purpose = purp,
                  booked_by_admin_id = adm, rb_status = BOOKING_CONFIRMED\<rparr>]\<rparr>,
            seqs := (seqs s)\<lparr>booking_seq := booking_seq (seqs s) + 1\<rparr>\<rparr>)"
    by (rule book_room_accepts[OF a])
qed

lemma club1_eval:
  "club1 = club0\<lparr>db := (db club0)\<lparr>room_bookings :=
                      [studio_9_10\<lparr>booked_by_admin_id := Some 1\<rparr>]\<rparr>,
                  seqs := (seqs club0)\<lparr>booking_seq := 2\<rparr>\<rparr>"
  by (simp add: club1_def club0_def studio_9_10_def eval_defs)

lemma scenario_eval:
  "map (\<lambda>b. (booking_id b, rb_start_time b, rb_end_time b, rb_status b))
     (room_bookings (db (run_ops scenario_ops club0))) =
   [(1, hm 9 0, hm 10 0, BOOKING_CANCELLED), (3, hm 10 0, hm 11 0, BOOKING_CONFIRMED),
    (4, hm 11 0, hm 12 0, BOOKING_CONFIRMED)]"
  by (simp add: scenario_ops_def run_ops_def club0_def eval_defs)

theorem room_no_double_booking_witness:
  "pending club0 = [] \<and> no_double_booking (room_bookings (db club0)) \<and>
   no_double_booking (room_bookings (db (run_ops scenario_ops club0))) \<and>
   map (\<lambda>b. (booking_id b, rb_start_time b, rb_end_time b, rb_status b))
     (room_bookings (db (run_ops scenario_ops club0))) =
   [(1, hm 9 0, hm 10 0, BOOKING_CANCELLED), (3, hm 10 0, hm 11 0, BOOKING_CONFIRMED),
    (4, hm 11 0, hm 12 0, BOOKING_CONFIRMED)] \<and>
   book_room now0 1 739402 (hm 14 0) (hm 15 0) None (Some 7) club1 =
     (Inl DatabaseError, club1\<lparr>seqs := (seqs club1)\<lparr>booking_seq := 3\<rparr>\<rparr>) \<and>
   book_room now0 1 739402 (hm 9 30) (hm 10 30) None (Some 1) club1 =
     (Inl (Conflict (hm 9 0) (hm 10 0)), club1) \<and>
   fst (book_room now0 1 739402 (hm 10 0) (hm 11 0) None (Some 1) club1) =
     Inr \<lparr>booking_id = 2, rb_room_id = 1, booking_date = 739402,
          rb_start_time = hm 10 0, rb_end_time = hm 11 0, purpose = None,
          booked_by_admin_id = Some 1, rb_status = BOOKING_CONFIRMED\<rparr>"
proof -
  have refused: "book_room now0 1 739402 (hm 14 0) (hm 15 0) None (Some 7) club1 =
     (Inl DatabaseError, club1\<lparr>seqs := (seqs club1)\<lparr>booking_seq := 3\<rparr>\<rparr>)"
    by (simp add: club1_eval club0_def studio_9_10_def eval_defs)
  have st: "pending club1 = []" "nullable no_nul (None :: string option)" "int32 1"
    "nullable int32 (Some 1)" "booking_seq (seqs club1) \<le> INT_MAX"
    "nullable (\<lambda>a. a \<in> set (admins (db club1))) (Some 1)"
    by (simp_all add: club1_eval club0_def nullable_def int32_def INT_MAX_def)
  have h0: "pending club0 = []" "no_double_booking (room_bookings (db club0))"
    by (simp_all add: club0_def no_double_booking_def)
  have inv: "no_double_booking (room_bookings (db (run_ops scenario_ops club0)))"
    using room_no_double_booking[where s = club0 and ops = scenario_ops, THEN conjunct1] h0
    by simp
  have room1: "get_room_by_id (db club1) 1 =
      Some \<lparr>room_id = 1, room_name = ''Studio A'', room_capacity = 30\<rparr>"
    by (simp add: club1_eval club0_def get_room_by_id_def)
  have day: "date_of now0 \<le> 739402"
    by (simp add: now0_def at_def date_of_def DAY_def hm_values)
  have bs1: "room_bookings (db club1) = [studio_9_10\<lparr>booked_by_admin_id := Some 1\<rparr>]"
    by (simp add: club1_eval)
  have rej: "book_room now0 1 739402 (hm 9 30) (hm 10 30) None (Some 1) club1 =
     (Inl (Conflict (hm 9 0) (hm 10 0)), club1)"
    using room_no_double_booking[where s = club1 and rid = 1 and st = "hm 9 30"
        and en = "hm 10 30" and now = now0 and bdate = 739402 and purp = None
        and adm = "Some 1" and b = "studio_9_10\<lparr>booked_by_admin_id := Some 1\<rparr>"
        and room = "\<lparr>room_id = 1, room_name = ''Studio A'', room_capacity = 30\<rparr>",
        THEN conjunct2, THEN conjunct1]
      room1 day bs1
    by (simp add: studio_9_10_def hm_values)
  have acc: "fst (book_room now0 1 739402 (hm 10 0) (hm 11 0) None (Some 1) club1) =
     Inr \<lparr>booking_id = 2, rb_room_id = 1, booking_date = 739402,
          rb_start_time = hm 10 0, rb_end_time = hm 11 0, purpose = None,
          booked_by_admin_id = Some 1, rb_status = BOOKING_CONFIRMED\<rparr>"
    using room_no_double_booking[where s = club1 and rid = 1 and st = "hm 10 0"
        and en = "hm 11 0" and now = now0 and bdate = 739402 and purp = None
        and adm = "Some 1"
        and room = "\<lparr>room_id = 1, room_name = ''Studio A'', room_capacity = 30\<rparr>",
        THEN conjunct2, THEN conjunct2]
      room1 day bs1 st
    by (simp add: studio_9_10_def hm_values) (simp add: club1_eval club0_def)
  show ?thesis
    using h0 inv scenario_eval rej acc refused by simp
qed

section \<open>Sessions, registrations and cancellation\<close>

lemma yoga_club_eval:
  "yoga_club = club0\<lparr>db := (db club0)\<lparr>
      room_bookings := [\<lparr>booking_id = 1, rb_room_id = 1, booking_date = 739403,
        rb_start_time = hm 9 0, rb_end_time = hm 10 0, purpose = Some ''Fitness Class: Yoga'',
        booked_by_admin_id = None, rb_status = BOOKING_CONFIRMED\<rparr>],
      fitness_classes := [\<lparr>class_id = 1, fc_name = ''Yoga'', fc_description = None,
        fc_trainer_id = 1, fc_room_id = 1, fc_scheduled_time = at 739403 (hm 9 0),
        fc_duration_minutes = 60, fc_capacity = 10, fc_status = CLASS_SCHEDULED\<rparr>]\<rparr>,
      seqs := (seqs club0)\<lparr>booking_seq := 2, class_seq := 2\<rparr>\<rparr>"
  by (simp add: yoga_club_def club0_def eval_defs)

lemma yoga_registered_eval:
  "yoga_registered = yoga_club\<lparr>db := (db yoga_club)\<lparr>
      class_registrations := [\<lparr>registration_id = 1, cr_member_id = 1, cr_class_id = 1,
         cr_status = REG_REGISTERED\<rparr>]\<rparr>,
      seqs := (seqs yoga_club)\<lparr>registration_seq := 2\<rparr>\<rparr>"
  by (simp add: yoga_registered_def yoga_club_eval club0_def eval_defs)

lemma yoga_cancelled_eval:
  "yoga_cancelled = yoga_club\<lparr>db := (db yoga_club)\<lparr>
      class_registrations := [\<lparr>registration_id = 1, cr_member_id = 1, cr_class_id = 1,
         cr_status = REG_CANCELLED\<rparr>]\<rparr>,
      seqs := (seqs yoga_club)\<lparr>registration_seq := 2\<rparr>\<rparr>"
  by (simp add: yoga_cancelled_def yoga_registered_eval yoga_club_eval club0_def eval_defs)

lemma pt_booked_eval:
  "pt_booked = pt_club\<lparr>db := (db pt_club)\<lparr>personal_training_sessions :=
      [\<lparr>session_id = 1, pt_member_id = 2, pt_trainer_id = 1, pt_room_id = None,
        pt_scheduled_time = at 739403 (hm 9 0), pt_duration_minutes = 60, pt_notes = None,
        pt_status = SESSION_SCHEDULED\<rparr>]\<rparr>,
      seqs := (seqs pt_club)\<lparr>session_seq := 2\<rparr>\<rparr>"
  by (simp add: pt_booked_def pt_club_def club0_def eval_defs)

lemma pt_cancelled_eval:
  "pt_cancelled = pt_club\<lparr>db := (db pt_club)\<lparr>personal_training_sessions :=
      [\<lparr>session_id = 1, pt_member_id = 2, pt_trainer_id = 1, pt_room_id = None,
        pt_scheduled_time = at 739403 (hm 9 0), pt_duration_minutes = 60, pt_notes = None,
        pt_status = SESSION_CANCELLED\<rparr>]\<rparr>,
      seqs := (seqs pt_club)\<lparr>session_seq := 2\<rparr>\<rparr>"
  by (simp add: pt_cancelled_def pt_booked_eval pt_club_def club0_def eval_defs)

lemma scenario_results:
  "book_personal_training_session now0 1 1 (at 739403 (hm 11 30)) 60 None None pt_club =
     (Inl TrainerUnavailable, pt_club)"
  "fst (book_personal_training_session now0 1 1 (at 739403 (hm 9 0)) 30 None None pt_booked) =
     Inl TrainerConflict"
  "fst (book_personal_training_session now0 2 2 (at 739403 (hm 9 0)) 30 None None pt_booked) =
     Inl MemberConflict"
  "fst (book_personal_training_session now0 1 1 (at 739403 (hm 9 30)) 60 None None pt_booked) =
     Inr \<lparr>session_id = 2, pt_member_id = 1, pt_trainer_id = 1, pt_room_id = None,
        pt_scheduled_time = at 739403 (hm 9 30), pt_duration_minutes = 60, pt_notes = None,
        pt_status = SESSION_SCHEDULED\<rparr>"
  "reschedule_pt_session now0 2 1 (at 739403 (hm 11 30)) pt_booked =
     (Inl TrainerUnavailable, pt_booked)"
  "cancel_pt_session now0 2 1 pt_cancelled = (Inl AlreadyCancelled, pt_cancelled)"
  by (simp_all add: pt_cancelled_eval pt_booked_eval pt_club_def club0_def eval_defs)


text \<open>
  A registration row of the member for the class, whatever its status, makes the INSERT
  of \<^verbatim>\<open>register_for_class\<close> fail, so that no call returns a success.
\<close>

lemma commit_duplicate_registration:
  assumes "pending s = []" "r \<in> set (class_registrations (db s))"
    "cr_member_id r = mid" "cr_class_id r = cid"
  shows "\<exists>ex s2. commit (add (AddClassRegistration
           \<lparr>registration_id = 0, cr_member_id = mid, cr_class_id = cid,
            cr_status = REG_REGISTERED\<rparr>) s) = Inl (ex, s2)"
  using assms by (auto simp: commit_def add_def insert_row_def list_ex_iff)

lemma register_for_class_unique_row:
  assumes "pending s = []" "r \<in> set (class_registrations (db s))"
    "cr_member_id r = mid" "cr_class_id r = cid"
  shows "\<exists>e s'. register_for_class now mid cid s = (Inl e, s')"
proof -
  from commit_duplicate_registration[OF assms]
  obtain ex s2 where c: "commit (add (AddClassRegistration
           \<lparr>registration_id = 0, cr_member_id = mid, cr_class_id = cid,
            cr_status = REG_REGISTERED\<rparr>) s) = Inl (ex, s2)"
    by blast
  show ?thesis
    unfolding register_for_class_def Let_def c
    by (simp split: option.split)
qed

text \<open>
  Claim C2. The code at the failing input: member 1 registers for class 1, cancels the
  registration, and registers again while the class is scheduled, in the future, below
  capacity and free of session conflicts. The duplicate check of
  \<^verbatim>\<open>register_for_class\<close> skips the cancelled row, but the row is still in the table
  and \<^verbatim>\<open>uq_member_class_registration\<close> refuses the second INSERT: the call returns
  "You are already registered for this class". The tables are unchanged; the refused
  INSERT has drawn key 2 of the sequence.
\<close>

theorem reregister_after_cancel_fails:
  "fst (register_for_class now0 1 1 yoga_club) =
     Inr \<lparr>registration_id = 1, cr_member_id = 1, cr_class_id = 1, cr_status = REG_REGISTERED\<rparr> \<and>
   fst (cancel_class_registration now0 1 1 yoga_registered) = Inr () \<and>
   map cr_status (class_registrations (db yoga_cancelled)) = [REG_CANCELLED] \<and>
   register_for_class now0 1 1 yoga_cancelled =
     (Inl AlreadyRegistered,
      yoga_cancelled\<lparr>seqs := (seqs yoga_cancelled)\<lparr>registration_seq := 3\<rparr>\<rparr>)"
  by (simp add: yoga_cancelled_eval yoga_registered_eval yoga_club_eval club0_def eval_defs)


lemma cancel_map_id:
  assumes "distinct (map booking_id bs)" "b \<in> set bs" "booking_id b = bid"
    "rb_status b = BOOKING_CANCELLED"
  shows "map (\<lambda>x. if booking_id x = bid then x\<lparr>rb_status := BOOKING_CANCELLED\<rparr> else x) bs = bs"
proof -
  have inj: "inj_on booking_id (set bs)"
    using assms(1) by (simp add: distinct_map)
  have "x = b" if "x \<in> set bs" "booking_id x = bid" for x
    using inj that assms(2,3) by (auto dest: inj_onD)
  then have "(if booking_id x = bid then x\<lparr>rb_status := BOOKING_CANCELLED\<rparr> else x) = x"
    if "x \<in> set bs" for x
    using that assms(4) by auto
  then show ?thesis by (simp add: map_idI)
qed


lemma commit_cancel_again:
  assumes clean: "pending s = []"
    and same: "map (\<lambda>x. if booking_id x = bid then x\<lparr>rb_status := BOOKING_CANCELLED\<rparr> else x)
          (room_bookings (db s)) = room_bookings (db s)"
  shows "commit (add (SetBookingStatus bid BOOKING_CANCELLED) s) = Inr s"
proof -
  have "flush (keys_before_values s) [SetBookingStatus bid BOOKING_CANCELLED] (db s, seqs s) =
          (Inr (db s), seqs s)"
    by (simp add: same)
  then show ?thesis
    using clean by (cases s) (simp add: commit_def add_def)
qed

lemma cancel_room_booking_again:
  assumes clean: "pending s = []"
    and pk: "distinct (map booking_id (room_bookings (db s)))"
    and found: "find (\<lambda>b. booking_id b = bid) (room_bookings (db s)) = Some b"
    and st: "rb_status b = BOOKING_CANCELLED"
  shows "cancel_room_booking bid s = (Inr (), s)"
proof -
  have b: "b \<in> set (room_bookings (db s))" "booking_id b = bid"
    using found by (auto simp: find_Some_iff)
  have "map (\<lambda>x. if booking_id x = bid then x\<lparr>rb_status := BOOKING_CANCELLED\<rparr> else x)
          (room_bookings (db s)) = room_bookings (db s)"
    using pk b st by (rule cancel_map_id)
  then have "commit (add (SetBookingStatus bid BOOKING_CANCELLED) s) = Inr s"
    using clean by (simp only: commit_cancel_again)
  then show ?thesis
    by (simp add: cancel_room_booking_def found b(2))
qed

text \<open>
  Claim C3, as amended. Cancelling a personal-training session or a class registration
  that is already cancelled returns the failure \<open>AlreadyCancelled\<close> and leaves the
  session state unchanged. Cancelling a room booking that is already cancelled (in a
  table whose primary keys are distinct) returns success and leaves the state unchanged:
  \<^verbatim>\<open>cancel_room_booking\<close> has no status check.
\<close>

theorem cancel_already_cancelled:
  "(find (\<lambda>p. session_id p = sid \<and> pt_member_id p = mid) (personal_training_sessions (db s)) = Some p \<and>
    pt_status p = SESSION_CANCELLED \<longrightarrow>
      cancel_pt_session now mid sid s = (Inl AlreadyCancelled, s)) \<and>
   (find (\<lambda>r. registration_id r = reg_id \<and> cr_member_id r = mid) (class_registrations (db s)) = Some r \<and>
    cr_status r = REG_CANCELLED \<longrightarrow>
      cancel_class_registration now mid reg_id s = (Inl AlreadyCancelled, s)) \<and>
   (pending s = [] \<and> distinct (map booking_id (room_bookings (db s))) \<and>
    find (\<lambda>b. booking_id b = bid) (room_bookings (db s)) = Some b \<and>
    rb_status b = BOOKING_CANCELLED \<longrightarrow>
      cancel_room_booking bid s = (Inr (), s))"
proof (intro conjI impI)
  assume "find (\<lambda>p. session_id p = sid \<and> pt_member_id p = mid) (personal_training_sessions (db s)) = Some p \<and>
    pt_status p = SESSION_CANCELLED"
  then show "cancel_pt_session now mid sid s = (Inl AlreadyCancelled, s)"
    by (simp add: cancel_pt_session_def)
next
  assume "find (\<lambda>r. registration_id r = reg_id \<and> cr_member_id r = mid) (class_registrations (db s)) = Some r \<and>
    cr_status r = REG_CANCELLED"
  then show "cancel_class_registration now mid reg_id s = (Inl AlreadyCancelled, s)"
    by (simp add: cancel_class_registration_def)
next
  assume "pending s = [] \<and> distinct (map booking_id (room_bookings (db s))) \<and>
    find (\<lambda>b. booking_id b = bid) (room_bookings (db s)) = Some b \<and>
    rb_status b = BOOKING_CANCELLED"
  then show "cancel_room_booking bid s = (Inr (), s)"
    using cancel_room_booking_again[of s bid b] by blast
qed



lemma club1_cancelled_eval:
  "club1_cancelled = club0\<lparr>db := (db club0)\<lparr>room_bookings :=
      [studio_9_10\<lparr>booked_by_admin_id := Some 1, rb_status := BOOKING_CANCELLED\<rparr>]\<rparr>,
      seqs := (seqs club0)\<lparr>booking_seq := 2\<rparr>\<rparr>"
  by (simp add: club1_cancelled_def club1_eval club0_def cancel_room_booking_def commit_def
      add_def studio_9_10_def)

text \<open>
  Claim C3 as stated fails for room bookings: cancelling booking 1 a second time
  returns success, not a failure reporting that it is already cancelled.
\<close>

theorem cancel_room_booking_twice_succeeds:
  "map rb_status (room_bookings (db club1_cancelled)) = [BOOKING_CANCELLED] \<and>
   cancel_room_booking 1 club1_cancelled = (Inr (), club1_cancelled)"
  by (simp add: club1_cancelled_eval club0_def cancel_room_booking_def commit_def add_def
      studio_9_10_def)





theorem cancel_already_cancelled_witness:
  "cancel_pt_session now0 2 1 pt_cancelled = (Inl AlreadyCancelled, pt_cancelled) \<and>
   cancel_class_registration now0 1 1 yoga_cancelled = (Inl AlreadyCancelled, yoga_cancelled) \<and>
   cancel_room_booking 1 club1_cancelled = (Inr (), club1_cancelled)"
proof -
  have "find (\<lambda>r. registration_id r = 1 \<and> cr_member_id r = 1)
          (class_registrations (db yoga_cancelled)) =
        Some \<lparr>registration_id = 1, cr_member_id = 1, cr_class_id = 1, cr_status = REG_CANCELLED\<rparr>"
    by (simp add: yoga_cancelled_eval)
  then have a: "cancel_class_registration now0 1 1 yoga_cancelled =
      (Inl AlreadyCancelled, yoga_cancelled)"
    using cancel_already_cancelled[where s = yoga_cancelled and reg_id = 1 and mid = 1
        and now = now0
        and r = "\<lparr>registration_id = 1, cr_member_id = 1, cr_class_id = 1, cr_status = REG_CANCELLED\<rparr>",
        THEN conjunct2, THEN conjunct1]
    by simp
  have "pending club1_cancelled = []"
    "distinct (map booking_id (room_bookings (db club1_cancelled)))"
    "find (\<lambda>b. booking_id b = 1) (room_bookings (db club1_cancelled)) =
       Some (studio_9_10\<lparr>booked_by_admin_id := Some 1, rb_status := BOOKING_CANCELLED\<rparr>)"
    "rb_status (studio_9_10\<lparr>booked_by_admin_id := Some 1, rb_status := BOOKING_CANCELLED\<rparr>) =
       BOOKING_CANCELLED"
    by (simp_all add: club1_cancelled_eval club0_def studio_9_10_def)
  then have b: "cancel_room_booking 1 club1_cancelled = (Inr (), club1_cancelled)"
    using cancel_already_cancelled[where s = club1_cancelled and bid = 1
        and b = "studio_9_10\<lparr>booked_by_admin_id := Some 1, rb_status := BOOKING_CANCELLED\<rparr>",
        THEN conjunct2, THEN conjunct2]
    by blast
  have "find (\<lambda>p. session_id p = 1 \<and> pt_member_id p = 2)
          (personal_training_sessions (db pt_cancelled)) =
        Some \<lparr>session_id = 1, pt_member_id = 2, pt_trainer_id = 1, pt_room_id = None,
          pt_scheduled_time = at 739403 (hm 9 0), pt_duration_minutes = 60, pt_notes = None,
          pt_status = SESSION_CANCELLED\<rparr>"
    by (simp add: pt_cancelled_eval pt_club_def)
  then have c: "cancel_pt_session now0 2 1 pt_cancelled = (Inl AlreadyCancelled, pt_cancelled)"
    using cancel_already_cancelled[where s = pt_cancelled and sid = 1 and mid = 2
        and now = now0
        and p = "\<lparr>session_id = 1, pt_member_id = 2, pt_trainer_id = 1, pt_room_id = None,
          pt_scheduled_time = at 739403 (hm 9 0), pt_duration_minutes = 60, pt_notes = None,
          pt_status = SESSION_CANCELLED\<rparr>", THEN conjunct1]
    by simp
  show ?thesis using a b c by simp
qed

lemma find_None_Bex: "(find P xs = None) = (\<not> (\<exists>x\<in>set xs. P x))"
  by (auto simp: find_None_iff)

lemma book_pt_steps:
  assumes "mid \<in> set (members (db s))" "tid \<in> set (trainers (db s))" "now < t"
    "plus_minutes t dur = Some e"
  shows "book_personal_training_session now mid tid t dur rid notes s =
     (if \<not> trainer_window (db s) tid t e then (Inl TrainerUnavailable, s)
      else if trainer_start_in (db s) tid t e then (Inl TrainerConflict, s)
      else if member_start_in (db s) mid t e then (Inl MemberConflict, s)
      else if (case rid of None \<Rightarrow> None
               | Some r \<Rightarrow> if r = 0 then None
                   else find (\<lambda>b. rb_room_id b = r \<and> booking_date b = date_of t \<and>
                                   rb_status b = BOOKING_CONFIRMED \<and>
                                   rb_start_time b < time_of e \<and> rb_end_time b > time_of t)
                          (room_bookings (db s))) \<noteq> None
      then (Inl RoomConflict, s)
      else (case commit (add (AddSession
                  \<lparr>session_id = 0, pt_member_id = mid, pt_trainer_id = tid,
                   pt_room_id = rid, pt_scheduled_time = t,
                   pt_duration_minutes = dur, pt_notes = notes,
                   pt_status = SESSION_SCHEDULED\<rparr>) s) of
              Inr s2 \<Rightarrow> (Inr (last (personal_training_sessions (db s2))), s2)
            | Inl (ex, s2) \<Rightarrow> (Inl DatabaseError, rollback s2)))"
proof -
  have w: "(find (\<lambda>a. ta_trainer_id a = tid \<and> ta_day_of_week a = day_of_week t \<and>
                     ta_start_time a \<le> time_of t \<and> ta_end_time a \<ge> time_of e)
              (trainer_availability (db s)) = None) = (\<not> trainer_window (db s) tid t e)"
    by (simp add: find_None_Bex trainer_window_def)
  have tc: "(find (\<lambda>p. pt_trainer_id p = tid \<and> pt_status p = SESSION_SCHEDULED \<and>
                      pt_scheduled_time p < e \<and> pt_scheduled_time p \<ge> t)
              (personal_training_sessions (db s)) = None) = (\<not> trainer_start_in (db s) tid t e)"
    by (auto simp: find_None_Bex trainer_start_in_def)
  have mc: "(find (\<lambda>p. pt_member_id p = mid \<and> pt_status p = SESSION_SCHEDULED \<and>
                      pt_scheduled_time p < e \<and> pt_scheduled_time p \<ge> t)
              (personal_training_sessions (db s)) = None) = (\<not> member_start_in (db s) mid t e)"
    by (auto simp: find_None_Bex member_start_in_def)
  show ?thesis
    using assms
    by (simp add: book_personal_training_session_def Let_def w tc mc)
qed


lemma book_pt_early:
  assumes "\<not> (mid \<in> set (members (db s)) \<and> tid \<in> set (trainers (db s)) \<and> now < t)"
  shows "fst (book_personal_training_session now mid tid t dur rid notes s) \<in>
           {Inl MemberNotFound, Inl TrainerNotFound, Inl PastSchedule}"
  using assms by (auto simp: book_personal_training_session_def)

lemma book_pt_overflow:
  assumes "mid \<in> set (members (db s))" "tid \<in> set (trainers (db s))" "now < t"
    "plus_minutes t dur = None"
  shows "book_personal_training_session now mid tid t dur rid notes s = (Inl OverflowError, s)"
  using assms by (simp add: book_personal_training_session_def)


lemma book_pt_trainer_conflict_iff:
  "fst (book_personal_training_session now mid tid t dur rid notes s) = Inl TrainerConflict \<longleftrightarrow>
     mid \<in> set (members (db s)) \<and> tid \<in> set (trainers (db s)) \<and> now < t \<and>
     (\<exists>e. plus_minutes t dur = Some e \<and> trainer_window (db s) tid t e \<and>
          trainer_start_in (db s) tid t e)"
proof (cases "mid \<in> set (members (db s)) \<and> tid \<in> set (trainers (db s)) \<and> now < t")
  case False
  with book_pt_early[OF False, of dur rid "notes"] show ?thesis by auto
next
  case True
  show ?thesis
  proof (cases "plus_minutes t dur")
    case None
    with True show ?thesis by (simp add: book_pt_overflow)
  next
    case (Some e)
    with True show ?thesis
      by (simp add: book_pt_steps split: sum.splits prod.splits)
  qed
qed

lemma book_pt_member_conflict_iff:
  "fst (book_personal_training_session now mid tid t dur rid notes s) = Inl MemberConflict \<longleftrightarrow>
     mid \<in> set (members (db s)) \<and> tid \<in> set (trainers (db s)) \<and> now < t \<and>
     (\<exists>e. plus_minutes t dur = Some e \<and> trainer_window (db s) tid t e \<and>
          \<not> trainer_start_in (db s) tid t e \<and> member_start_in (db s) mid t e)"
proof (cases "mid \<in> set (members (db s)) \<and> tid \<in> set (trainers (db s)) \<and> now < t")
  case False
  with book_pt_early[OF False, of dur rid "notes"] show ?thesis by auto
next
  case True
  show ?thesis
  proof (cases "plus_minutes t dur")
    case None
    with True show ?thesis by (simp add: book_pt_overflow)
  next
    case (Some e)
    with True show ?thesis
      by (simp add: book_pt_steps split: sum.splits prod.splits)
  qed
qed

lemma commit_add_session:
  assumes "pending s = []" "nullable no_nul (pt_notes p)"
    "int32 (pt_member_id p)" "int32 (pt_trainer_id p)" "nullable int32 (pt_room_id p)"
    "int32 (pt_duration_minutes p)" "session_seq (seqs s) \<le> INT_MAX"
    "pt_member_id p \<in> set (members (db s))" "pt_trainer_id p \<in> set (trainers (db s))"
    "nullable (\<lambda>r. r \<in> set (map room_id (rooms (db s)))) (pt_room_id p)"
  shows "commit (add (AddSession p) s) =
           Inr (s\<lparr>db := (db s)\<lparr>personal_training_sessions :=
                       personal_training_sessions (db s) @ [p\<lparr>session_id := session_seq (seqs s)\<rparr>]\<rparr>,
                  seqs := (seqs s)\<lparr>session_seq := session_seq (seqs s) + 1\<rparr>\<rparr>)"
  using assms by (simp add: commit_def add_def insert_row_def)

lemma book_pt_accepts:
  assumes clean: "pending s = []"
    and pre: "mid \<in> set (members (db s))" "tid \<in> set (trainers (db s))" "now < t"
      "plus_minutes t dur = Some e"
    and w: "trainer_window (db s) tid t e"
    and tc: "\<not> trainer_start_in (db s) tid t e"
    and mc: "\<not> member_start_in (db s) mid t e"
    and row: "nullable no_nul nt" "int32 mid" "int32 tid" "int32 dur"
      "session_seq (seqs s) \<le> INT_MAX"
  shows "book_personal_training_session now mid tid t dur None nt s =
           (Inr \<lparr>session_id = session_seq (seqs s), pt_member_id = mid, pt_trainer_id = tid,
                 pt_room_id = None, pt_scheduled_time = t, pt_duration_minutes = dur,
                 pt_notes = nt, pt_status = SESSION_SCHEDULED\<rparr>,
            s\<lparr>db := (db s)\<lparr>personal_training_sessions :=
                   personal_training_sessions (db s) @
                   [\<lparr>session_id = session_seq (seqs s), pt_member_id = mid, pt_trainer_id = tid,
                     pt_room_id = None, pt_scheduled_time = t, pt_duration_minutes = dur,
                     pt_notes = nt, pt_status = SESSION_SCHEDULED\<rparr>]\<rparr>,
               seqs := (seqs s)\<lparr>session_seq := session_seq (seqs s) + 1\<rparr>\<rparr>)"
proof -
  let ?p = "\<lparr>session_id = 0, pt_member_id = mid, pt_trainer_id = tid,
              pt_room_id = None, pt_scheduled_time = t, pt_duration_minutes = dur,
              pt_notes = nt, pt_status = SESSION_SCHEDULED\<rparr>"
  have c: "commit (add (AddSession ?p) s) =
           Inr (s\<lparr>db := (db s)\<lparr>personal_training_sessions :=
                       personal_training_sessions (db s) @ [?p\<lparr>session_id := session_seq (seqs s)\<rparr>]\<rparr>,
                  seqs := (seqs s)\<lparr>session_seq := session_seq (seqs s) + 1\<rparr>\<rparr>)"
    using clean pre(1,2) row by (intro commit_add_session) (simp_all add: nullable_def)
  show ?thesis
    using pre w tc mc by (simp add: book_pt_steps c)
qed

text \<open>
  Claim C5. \<^verbatim>\<open>book_personal_training_session\<close> returns \<open>TrainerConflict\<close> exactly
  when it reaches the trainer query (member and trainer exist, the time is in the future,
  the end \<open>e = t + duration\<close> is representable, a window contains the session) and
  some scheduled session of the trainer starts in \<open>[t, e)\<close>; it returns
  \<open>MemberConflict\<close> exactly when it reaches the member query (no such session of the
  trainer) and some scheduled session of the member starts in \<open>[t, e)\<close>. Scheduled
  sessions of the trainer or the member that start strictly before \<open>t\<close>, overlapping
  or not, do not cause a rejection: with a containing window, no room and a row that can
  be stored (notes without NUL, keys and duration of 32 bits, a sequence that is not
  exhausted) the session is booked under the next key.
\<close>

theorem pt_conflict_is_start_containment:
  "(fst (book_personal_training_session now mid tid t dur rid nt s) = Inl TrainerConflict \<longleftrightarrow>
      mid \<in> set (members (db s)) \<and> tid \<in> set (trainers (db s)) \<and> now < t \<and>
      (\<exists>e. plus_minutes t dur = Some e \<and> trainer_window (db s) tid t e \<and>
         (\<exists>p\<in>set (personal_training_sessions (db s)).
            pt_trainer_id p = tid \<and> pt_status p = SESSION_SCHEDULED \<and>
            t \<le> pt_scheduled_time p \<and> pt_scheduled_time p < e))) \<and>
   (fst (book_personal_training_session now mid tid t dur rid nt s) = Inl MemberConflict \<longleftrightarrow>
      mid \<in> set (members (db s)) \<and> tid \<in> set (trainers (db s)) \<and> now < t \<and>
      (\<exists>e. plus_minutes t dur = Some e \<and> trainer_window (db s) tid t e \<and>
         \<not> (\<exists>p\<in>set (personal_training_sessions (db s)).
              pt_trainer_id p = tid \<and> pt_status p = SESSION_SCHEDULED \<and>
              t \<le> pt_scheduled_time p \<and> pt_scheduled_time p < e) \<and>
         (\<exists>p\<in>set (personal_training_sessions (db s)).
            pt_member_id p = mid \<and> pt_status p = SESSION_SCHEDULED \<and>
            t \<le> pt_scheduled_time p \<and> pt_scheduled_time p < e))) \<and>
   (pending s = [] \<and> mid \<in> set (members (db s)) \<and> tid \<in> set (trainers (db s)) \<and> now < t \<and>
    plus_minutes t dur = Some e \<and> trainer_window (db s) tid t e \<and>
    (\<forall>p\<in>set (personal_training_sessions (db s)).
        pt_status p = SESSION_SCHEDULED \<and> (pt_trainer_id p = tid \<or> pt_member_id p = mid) \<longrightarrow>
        pt_scheduled_time p < t) \<and>
    nullable no_nul nt \<and> int32 mid \<and> int32 tid \<and> int32 dur \<and>
    session_seq (seqs s) \<le> INT_MAX \<longrightarrow>
      book_personal_training_session now mid tid t dur None nt s =
        (Inr \<lparr>session_id = session_seq (seqs s), pt_member_id = mid, pt_trainer_id = tid,
              pt_room_id = None, pt_scheduled_time = t, pt_duration_minutes = dur,
              pt_notes = nt, pt_status = SESSION_SCHEDULED\<rparr>,
         s\<lparr>db := (db s)\<lparr>personal_training_sessions :=
                personal_training_sessions (db s) @
                [\<lparr>session_id = session_seq (seqs s), pt_member_id = mid, pt_trainer_id = tid,
                  pt_room_id = None, pt_scheduled_time = t, pt_duration_minutes = dur,
                  pt_notes = nt, pt_status = SESSION_SCHEDULED\<rparr>]\<rparr>,
            seqs := (seqs s)\<lparr>session_seq := session_seq (seqs s) + 1\<rparr>\<rparr>))"
proof (intro conjI impI)
  show "fst (book_personal_training_session now mid tid t dur rid nt s) = Inl TrainerConflict \<longleftrightarrow>
      mid \<in> set (members (db s)) \<and> tid \<in> set (trainers (db s)) \<and> now < t \<and>
      (\<exists>e. plus_minutes t dur = Some e \<and> trainer_window (db s) tid t e \<and>
         (\<exists>p\<in>set (personal_training_sessions (db s)).
            pt_trainer_id p = tid \<and> pt_status p = SESSION_SCHEDULED \<and>
            t \<le> pt_scheduled_time p \<and> pt_scheduled_time p < e))"
    by (simp only: book_pt_trainer_conflict_iff trainer_start_in_def)
next
  show "fst (book_personal_training_session now mid tid t dur rid nt s) = Inl MemberConflict \<longleftrightarrow>
      mid \<in> set (members (db s)) \<and> tid \<in> set (trainers (db s)) \<and> now < t \<and>
      (\<exists>e. plus_minutes t dur = Some e \<and> trainer_window (db s) tid t e \<and>
         \<not> (\<exists>p\<in>set (personal_training_sessions (db s)).
              pt_trainer_id p = tid \<and> pt_status p = SESSION_SCHEDULED \<and>
              t \<le> pt_scheduled_time p \<and> pt_scheduled_time p < e) \<and>
         (\<exists>p\<in>set (personal_training_sessions (db s)).
            pt_member_id p = mid \<and> pt_status p = SESSION_SCHEDULED \<and>
            t \<le> pt_scheduled_time p \<and> pt_scheduled_time p < e))"
    by (simp only: book_pt_member_conflict_iff trainer_start_in_def member_start_in_def)
next
  assume h: "pending s = [] \<and> mid \<in> set (members (db s)) \<and> tid \<in> set (trainers (db s)) \<and> now < t \<and>
    plus_minutes t dur = Some e \<and> trainer_window (db s) tid t e \<and>
    (\<forall>p\<in>set (personal_training_sessions (db s)).
        pt_status p = SESSION_SCHEDULED \<and> (pt_trainer_id p = tid \<or> pt_member_id p = mid) \<longrightarrow>
        pt_scheduled_time p < t) \<and>
    nullable no_nul nt \<and> int32 mid \<and> int32 tid \<and> int32 dur \<and>
    session_seq (seqs s) \<le> INT_MAX"
  then have c: "\<not> trainer_start_in (db s) tid t e" "\<not> member_start_in (db s) mid t e"
    by (fastforce simp: trainer_start_in_def member_start_in_def)+
  from h have a: "pending s = []" "mid \<in> set (members (db s))" "tid \<in> set (trainers (db s))"
    "now < t" "plus_minutes t dur = Some e" "trainer_window (db s) tid t e"
    and r: "nullable no_nul nt" "int32 mid" "int32 tid" "int32 dur"
      "session_seq (seqs s) \<le> INT_MAX"
    by simp_all
  show "book_personal_training_session now mid tid t dur None nt s =
        (Inr \<lparr>session_id = session_seq (seqs s), pt_member_id = mid, pt_trainer_id = tid,
              pt_room_id = None, pt_scheduled_time = t, pt_duration_minutes = dur,
              pt_notes = nt, pt_status = SESSION_SCHEDULED\<rparr>,
         s\<lparr>db := (db s)\<lparr>personal_training_sessions :=
                personal_training_sessions (db s) @
                [\<lparr>session_id = session_seq (seqs s), pt_member_id = mid, pt_trainer_id = tid,
                  pt_room_id = None, pt_scheduled_time = t, pt_duration_minutes = dur,
                  pt_notes = nt, pt_status = SESSION_SCHEDULED\<rparr>]\<rparr>,
            seqs := (seqs s)\<lparr>session_seq := session_seq (seqs s) + 1\<rparr>\<rparr>)"
    by (rule book_pt_accepts[OF a c r])
qed

theorem pt_conflict_is_start_containment_witness:
  "pt_scheduled_time (hd (personal_training_sessions (db pt_booked))) < at 739403 (hm 9 30) \<and>
   plus_minutes (pt_scheduled_time (hd (personal_training_sessions (db pt_booked))))
     (pt_duration_minutes (hd (personal_training_sessions (db pt_booked)))) =
     Some (at 739403 (hm 10 0)) \<and>
   at 739403 (hm 9 30) < at 739403 (hm 10 0) \<and>
   fst (book_personal_training_session now0 1 1 (at 739403 (hm 9 30)) 60 None None pt_booked) =
     Inr \<lparr>session_id = 2, pt_member_id = 1, pt_trainer_id = 1, pt_room_id = None,
        pt_scheduled_time = at 739403 (hm 9 30), pt_duration_minutes = 60, pt_notes = None,
        pt_status = SESSION_SCHEDULED\<rparr> \<and>
   fst (book_personal_training_session now0 1 1 (at 739403 (hm 9 0)) 30 None None pt_booked) =
     Inl TrainerConflict \<and>
   fst (book_personal_training_session now0 2 2 (at 739403 (hm 9 0)) 30 None None pt_booked) =
     Inl MemberConflict"
proof -
  have facts:
    "pt_scheduled_time (hd (personal_training_sessions (db pt_booked))) < at 739403 (hm 9 30)"
    "plus_minutes (pt_scheduled_time (hd (personal_training_sessions (db pt_booked))))
       (pt_duration_minutes (hd (personal_training_sessions (db pt_booked)))) =
       Some (at 739403 (hm 10 0))"
    "at 739403 (hm 9 30) < at 739403 (hm 10 0)"
    by (simp_all add: pt_booked_eval pt_club_def club0_def eval_defs)
  have hyp:
    "pending pt_booked = []" "1 \<in> set (members (db pt_booked))"
    "1 \<in> set (trainers (db pt_booked))" "now0 < at 739403 (hm 9 30)"
    "plus_minutes (at 739403 (hm 9 30)) 60 = Some (at 739403 (hm 10 30))"
    "trainer_window (db pt_booked) 1 (at 739403 (hm 9 30)) (at 739403 (hm 10 30))"
    "\<forall>p\<in>set (personal_training_sessions (db pt_booked)).
        pt_status p = SESSION_SCHEDULED \<and> (pt_trainer_id p = 1 \<or> pt_member_id p = 1) \<longrightarrow>
        pt_scheduled_time p < at 739403 (hm 9 30)"
    "nullable no_nul (None :: string option)" "int32 1" "int32 60"
    "session_seq (seqs pt_booked) \<le> INT_MAX"
    by (simp_all add: pt_booked_eval pt_club_def club0_def trainer_window_def eval_defs)
  have acc: "fst (book_personal_training_session now0 1 1 (at 739403 (hm 9 30)) 60 None None pt_booked) =
     Inr \<lparr>session_id = 2, pt_member_id = 1, pt_trainer_id = 1, pt_room_id = None,
        pt_scheduled_time = at 739403 (hm 9 30), pt_duration_minutes = 60, pt_notes = None,
        pt_status = SESSION_SCHEDULED\<rparr>"
    using pt_conflict_is_start_containment[where s = pt_booked and mid = 1 and tid = 1
        and now = now0 and t = "at 739403 (hm 9 30)" and dur = 60 and nt = None
        and e = "at 739403 (hm 10 30)", THEN conjunct2, THEN conjunct2] hyp
    by (simp add: pt_booked_eval pt_club_def club0_def)
  show ?thesis
    using facts acc scenario_results(2,3) by simp
qed














section \<open>Creating classes\<close>

lemma create_class_past_iff:
  assumes "tid \<in> set (trainers (db s))" "get_room_by_id (db s) rid = Some room"
    "case capacity of None \<Rightarrow> True | Some c \<Rightarrow> c \<le> room_capacity room" "0 < dur"
  shows "fst (create_class now name tid rid t dur capacity descr s) = Inl PastSchedule \<longleftrightarrow> t < now"
    and "t < now \<Longrightarrow> create_class now name tid rid t dur capacity descr s = (Inl PastSchedule, s)"
  using assms
  by (auto simp: create_class_def Let_def split: option.splits sum.splits prod.splits)

text \<open>
  Claim C8, as amended. For a request with an existing trainer and room, a valid
  capacity and a positive duration, \<^verbatim>\<open>create_class\<close> fails with \<open>PastSchedule\<close>
  exactly when the scheduled time is strictly before the current time; the state is then
  unchanged. A scheduled time equal to the current time is not rejected as past.
\<close>

theorem create_class_past_schedule:
  "tid \<in> set (trainers (db s)) \<and> get_room_by_id (db s) rid = Some room \<and>
   (case capacity of None \<Rightarrow> True | Some c \<Rightarrow> c \<le> room_capacity room) \<and> 0 < dur \<longrightarrow>
     (fst (create_class now name tid rid t dur capacity descr s) = Inl PastSchedule \<longleftrightarrow> t < now) \<and>
     (t < now \<longrightarrow> create_class now name tid rid t dur capacity descr s = (Inl PastSchedule, s))"
proof (intro impI)
  assume "tid \<in> set (trainers (db s)) \<and> get_room_by_id (db s) rid = Some room \<and>
   (case capacity of None \<Rightarrow> True | Some c \<Rightarrow> c \<le> room_capacity room) \<and> 0 < dur"
  then have a: "tid \<in> set (trainers (db s))" "get_room_by_id (db s) rid = Some room"
    "case capacity of None \<Rightarrow> True | Some c \<Rightarrow> c \<le> room_capacity room" "0 < dur"
    by simp_all
  show "(fst (create_class now name tid rid t dur capacity descr s) = Inl PastSchedule \<longleftrightarrow> t < now) \<and>
     (t < now \<longrightarrow> create_class now name tid rid t dur capacity descr s = (Inl PastSchedule, s))"
    using create_class_past_iff[OF a] by blast
qed

text \<open>
  Claim C8 as stated fails at the boundary: a class scheduled exactly at the current
  time is created.
\<close>

theorem create_class_at_now_accepted:
  "fst (create_class now0 ''Yoga'' 1 1 now0 60 None None club0) =
     Inr \<lparr>class_id = 1, fc_name = ''Yoga'', fc_description = None, fc_trainer_id = 1,
          fc_room_id = 1, fc_scheduled_time = now0, fc_duration_minutes = 60,
          fc_capacity = 30, fc_status = CLASS_SCHEDULED\<rparr>"
  by (simp add: club0_def eval_defs)

theorem create_class_past_schedule_witness:
  "at 739370 (hm 12 0) < now0 \<and>
   create_class now0 ''Yoga'' 1 1 (at 739370 (hm 12 0)) 60 None None club0 =
     (Inl PastSchedule, club0) \<and>
   fst (create_class now0 ''Yoga'' 1 1 now0 60 None None club0) \<noteq> Inl PastSchedule"
proof -
  have hyp: "1 \<in> set (trainers (db club0))"
    "get_room_by_id (db club0) 1 =
       Some \<lparr>room_id = 1, room_name = ''Studio A'', room_capacity = 30\<rparr>"
    "at 739370 (hm 12 0) < now0"
    by (simp_all add: club0_def get_room_by_id_def now0_def at_def DAY_def)
  show ?thesis
    using create_class_past_schedule[where s = club0 and tid = 1 and rid = 1
        and room = "\<lparr>room_id = 1, room_name = ''Studio A'', room_capacity = 30\<rparr>"
        and capacity = None and dur = 60 and now = now0 and name = "''Yoga''"
        and t = "at 739370 (hm 12 0)" and descr = None]
      create_class_past_schedule[where s = club0 and tid = 1 and rid = 1
        and room = "\<lparr>room_id = 1, room_name = ''Studio A'', room_capacity = 30\<rparr>"
        and capacity = None and dur = 60 and now = now0 and name = "''Yoga''"
        and t = now0 and descr = None]
      hyp
    by simp
qed


lemma wrapped_end_before_start:
  assumes "plus_minutes t dur = Some e" "dur < 1440" "date_of e = date_of t + 1"
  shows "time_of e < time_of t"
proof -
  have e: "e = t + dur * 60000000"
    using assms(1) by (auto simp: plus_minutes_def Let_def MINUTE_def split: if_splits)
  have d: "e div 86400000000 = t div 86400000000 + 1"
    using assms(3) by (simp add: date_of_def DAY_def)
  have "e mod 86400000000 = e - 86400000000 * (e div 86400000000)"
    by (simp add: minus_mult_div_eq_mod)
  moreover have "t mod 86400000000 = t - 86400000000 * (t div 86400000000)"
    by (simp add: minus_mult_div_eq_mod)
  ultimately show ?thesis
    using e d assms(2) by (simp add: time_of_def DAY_def)
qed

lemma create_class_accepts:
  assumes clean: "pending s = []"
    and tr: "tid \<in> set (trainers (db s))"
    and room: "get_room_by_id (db s) rid = Some room"
    and cap: "case capacity of None \<Rightarrow> True | Some c \<Rightarrow> c \<le> room_capacity room"
    and dur: "0 < dur" and fut: "now \<le> t"
    and en: "plus_minutes t dur = Some e"
    and av: "is_room_available (db s) rid (date_of t) (time_of t) (time_of e)"
    and nonul: "no_nul name" "nullable no_nul descr"
    and len: "length name \<le> 100"
    and vals: "int32 tid" "int32 rid" "int32 dur"
      "int32 (case capacity of None \<Rightarrow> room_capacity room | Some c \<Rightarrow> c)"
    and keys: "class_seq (seqs s) \<le> INT_MAX" "booking_seq (seqs s) \<le> INT_MAX"
  shows "create_class now name tid rid t dur capacity descr s =
     (Inr \<lparr>class_id = class_seq (seqs s), fc_name = name, fc_description = descr,
           fc_trainer_id = tid, fc_room_id = rid, fc_scheduled_time = t,
           fc_duration_minutes = dur,
           fc_capacity = (case capacity of None \<Rightarrow> room_capacity room | Some c \<Rightarrow> c),
           fc_status = CLASS_SCHEDULED\<rparr>,
      s\<lparr>db := (db s)\<lparr>
           fitness_classes := fitness_classes (db s) @
             [\<lparr>class_id = class_seq (seqs s), fc_name = name, fc_description = descr,
               fc_trainer_id = tid, fc_room_id = rid, fc_scheduled_time = t,
               fc_duration_minutes = dur,
               fc_capacity = (case capacity of None \<Rightarrow> room_capacity room | Some c \<Rightarrow> c),
               fc_status = CLASS_SCHEDULED\<rparr>],
           room_bookings := room_bookings (db s) @
             [\<lparr>booking_id = booking_seq (seqs s), rb_room_id = rid, booking_date = date_of t,
               rb_start_time = time_of t, rb_end_time = time_of e,
               purpose = Some (''Fitness Class: '' @ name), booked_by_admin_id = None,
               rb_status = BOOKING_CONFIRMED\<rparr>]\<rparr>,
         seqs := (seqs s)\<lparr>class_seq := class_seq (seqs s) + 1,
                          booking_seq := booking_seq (seqs s) + 1\<rparr>\<rparr>)"
proof -
  let ?c = "\<lparr>class_id = 0, fc_name = name, fc_description = descr,
             fc_trainer_id = tid, fc_room_id = rid, fc_scheduled_time = t,
             fc_duration_minutes = dur,
             fc_capacity = (case capacity of None \<Rightarrow> room_capacity room | Some c \<Rightarrow> c),
             fc_status = CLASS_SCHEDULED\<rparr>"
  let ?b = "\<lparr>booking_id = 0, rb_room_id = rid, booking_date = date_of t,
             rb_start_time = time_of t, rb_end_time = time_of e,
             purpose = Some (''Fitness Class: '' @ name), booked_by_admin_id = None,
             rb_status = BOOKING_CONFIRMED\<rparr>"
  have fk: "rid \<in> set (map room_id (rooms (db s)))"
    using room by (rule get_room_by_id_Some)
  have c: "\<not> (case capacity of None \<Rightarrow> False | Some c \<Rightarrow> c > room_capacity room)"
    using cap by (cases capacity) simp_all
  have pn: "nullable no_nul (Some (''Fitness Class: '' @ name))"
    using nonul(1) by (simp add: nullable_def no_nul_def)
  have "\<exists>s'. commit (add (AddRoomBooking ?b) (add (AddFitnessClass ?c) s)) = Inr s'"
    using clean tr fk nonul len vals keys pn
    by (simp add: commit_def add_def insert_row_def nullable_def)
  then obtain s' where cm: "commit (add (AddRoomBooking ?b) (add (AddFitnessClass ?c) s)) = Inr s'"
    by blast
  have s': "s' = s\<lparr>db := (db s)\<lparr>
                 fitness_classes := fitness_classes (db s) @ [?c\<lparr>class_id := class_seq (seqs s)\<rparr>],
                 room_bookings :=
                   room_bookings (db s) @ [?b\<lparr>booking_id := booking_seq (seqs s)\<rparr>]\<rparr>,
              seqs := (seqs s)\<lparr>class_seq := class_seq (seqs s) + 1,
                               booking_seq := booking_seq (seqs s) + 1\<rparr>\<rparr>"
    using clean cm by (rule commit_add_class_booking)
  have "create_class now name tid rid t dur capacity descr s =
          (Inr (last (fitness_classes (db s'))), s')"
    using tr room c dur fut en av cm by (simp add: create_class_def Let_def)
  then show ?thesis
    by (simp add: s')
qed

lemma available_after_append:
  assumes "room_bookings d' = room_bookings d @ [b]"
    and "dd \<noteq> booking_date b \<or> rb_end_time b \<le> a"
  shows "is_room_available d' rid dd a c = is_room_available d rid dd a c"
  using assms
  by (auto simp: is_room_available_def existing_bookings_def find_None_iff)


text \<open>
  Claim C9, as amended. A request for a class shorter than 24 hours whose end falls on
  the next day is checked and stored with the end's time of day. When the other checks
  pass, \<^verbatim>\<open>is_room_available\<close> holds for the window (start time of day, wrapped end
  time of day) and the rows can be stored (a name of at most 100 characters, no NUL
  character in the name or the description, identifiers and capacity of 32 bits, keys
  left in the two sequences), \<^verbatim>\<open>create_class\<close> returns the class row \<open>cls\<close>: the
  request's name, description, trainer, room, scheduled time and duration, the
  capacity (the room's when none is given), status scheduled and the next key of the
  sequence. The tables are those before with \<open>cls\<close> appended to the classes and the
  linked confirmed booking appended to the room bookings, with
  \<open>end_time < start_time\<close>; the class's own end, its scheduled time plus its
  duration, has a time of day before its start's. That booking conflicts with a booking
  \<open>x\<close> exactly when \<open>x\<close> is of the same room and date, not cancelled, starts before
  the wrapped end and ends after the class's start. It leaves \<^verbatim>\<open>is_room_available\<close>
  as it was for every window that starts at or after the wrapped end time of day (every
  window inside the class's hours on the start date is one), and for every other date.
\<close>

theorem create_class_across_midnight:
  "pending s = [] \<and> tid \<in> set (trainers (db s)) \<and> get_room_by_id (db s) rid = Some room \<and>
   (case capacity of None \<Rightarrow> True | Some c \<Rightarrow> c \<le> room_capacity room) \<and>
   0 < dur \<and> dur < 1440 \<and> now \<le> t \<and> plus_minutes t dur = Some e \<and>
   date_of e = date_of t + 1 \<and>
   is_room_available (db s) rid (date_of t) (time_of t) (time_of e) \<and>
   no_nul name \<and> length name \<le> 100 \<and> nullable no_nul descr \<and>
   int32 tid \<and> int32 rid \<and>
   int32 (case capacity of None \<Rightarrow> room_capacity room | Some c \<Rightarrow> c) \<and>
   class_seq (seqs s) \<le> INT_MAX \<and> booking_seq (seqs s) \<le> INT_MAX \<longrightarrow>
     (let booking = \<lparr>booking_id = booking_seq (seqs s), rb_room_id = rid,
                      booking_date = date_of t,
                      rb_start_time = time_of t, rb_end_time = time_of e,
                      purpose = Some (''Fitness Class: '' @ name), booked_by_admin_id = None,
                      rb_status = BOOKING_CONFIRMED\<rparr>;
          cls = \<lparr>class_id = class_seq (seqs s), fc_name = name, fc_description = descr,
                  fc_trainer_id = tid, fc_room_id = rid, fc_scheduled_time = t,
                  fc_duration_minutes = dur,
                  fc_capacity = (case capacity of None \<Rightarrow> room_capacity room | Some c \<Rightarrow> c),
                  fc_status = CLASS_SCHEDULED\<rparr>;
          s' = s\<lparr>db := (db s)\<lparr>fitness_classes := fitness_classes (db s) @ [cls],
                                room_bookings := room_bookings (db s) @ [booking]\<rparr>,
                 seqs := (seqs s)\<lparr>class_seq := class_seq (seqs s) + 1,
                                  booking_seq := booking_seq (seqs s) + 1\<rparr>\<rparr>
      in rb_end_time booking < rb_start_time booking \<and>
         time_of (the (plus_minutes (fc_scheduled_time cls) (fc_duration_minutes cls))) <
           time_of (fc_scheduled_time cls) \<and>
         create_class now name tid rid t dur capacity descr s = (Inr cls, s') \<and>
         (\<forall>a b. time_of e \<le> a \<longrightarrow>
            is_room_available (db s') rid (date_of t) a b =
            is_room_available (db s) rid (date_of t) a b) \<and>
         (\<forall>d a b. d \<noteq> date_of t \<longrightarrow>
            is_room_available (db s') rid d a b = is_room_available (db s) rid d a b) \<and>
         (\<forall>x. conflicts_with booking x \<longleftrightarrow>
            rb_room_id x = rid \<and> booking_date x = date_of t \<and> rb_status x \<noteq> BOOKING_CANCELLED \<and>
            time_of t < rb_end_time x \<and> rb_start_time x < time_of e))"
proof (intro impI)
  assume h: "pending s = [] \<and> tid \<in> set (trainers (db s)) \<and> get_room_by_id (db s) rid = Some room \<and>
   (case capacity of None \<Rightarrow> True | Some c \<Rightarrow> c \<le> room_capacity room) \<and>
   0 < dur \<and> dur < 1440 \<and> now \<le> t \<and> plus_minutes t dur = Some e \<and>
   date_of e = date_of t + 1 \<and>
   is_room_available (db s) rid (date_of t) (time_of t) (time_of e) \<and>
   no_nul name \<and> length name \<le> 100 \<and> nullable no_nul descr \<and>
   int32 tid \<and> int32 rid \<and>
   int32 (case capacity of None \<Rightarrow> room_capacity room | Some c \<Rightarrow> c) \<and>
   class_seq (seqs s) \<le> INT_MAX \<and> booking_seq (seqs s) \<le> INT_MAX"
  define booking where "booking = \<lparr>booking_id = booking_seq (seqs s), rb_room_id = rid,
                      booking_date = date_of t,
                      rb_start_time = time_of t, rb_end_time = time_of e,
                      purpose = Some (''Fitness Class: '' @ name), booked_by_admin_id = None,
                      rb_status = BOOKING_CONFIRMED\<rparr>"
  define cls where "cls = \<lparr>class_id = class_seq (seqs s), fc_name = name, fc_description = descr,
                  fc_trainer_id = tid, fc_room_id = rid, fc_scheduled_time = t,
                  fc_duration_minutes = dur,
                  fc_capacity = (case capacity of None \<Rightarrow> room_capacity room | Some c \<Rightarrow> c),
                  fc_status = CLASS_SCHEDULED\<rparr>"
  define s' where "s' = s\<lparr>db := (db s)\<lparr>fitness_classes := fitness_classes (db s) @ [cls],
                                room_bookings := room_bookings (db s) @ [booking]\<rparr>,
                 seqs := (seqs s)\<lparr>class_seq := class_seq (seqs s) + 1,
                                  booking_seq := booking_seq (seqs s) + 1\<rparr>\<rparr>"
  have wrap: "rb_end_time booking < rb_start_time booking"
    using h wrapped_end_before_start[of t dur e] by (simp add: booking_def)
  have wrap_cls: "time_of (the (plus_minutes (fc_scheduled_time cls) (fc_duration_minutes cls))) <
           time_of (fc_scheduled_time cls)"
    using h wrapped_end_before_start[of t dur e] by (simp add: cls_def)
  have d32: "int32 dur"
    using h by (simp add: int32_def INT_MAX_def)
  have a: "pending s = []" "tid \<in> set (trainers (db s))" "get_room_by_id (db s) rid = Some room"
    "case capacity of None \<Rightarrow> True | Some c \<Rightarrow> c \<le> room_capacity room"
    "0 < dur" "now \<le> t" "plus_minutes t dur = Some e"
    "is_room_available (db s) rid (date_of t) (time_of t) (time_of e)"
    "no_nul name" "nullable no_nul descr" "length name \<le> 100"
    "int32 tid" "int32 rid" "int32 dur"
    "int32 (case capacity of None \<Rightarrow> room_capacity room | Some c \<Rightarrow> c)"
    "class_seq (seqs s) \<le> INT_MAX" "booking_seq (seqs s) \<le> INT_MAX"
    using h d32 by simp_all
  have c: "create_class now name tid rid t dur capacity descr s = (Inr cls, s')"
    unfolding cls_def s'_def booking_def by (rule create_class_accepts[OF a])
  have bs: "room_bookings (db s') = room_bookings (db s) @ [booking]"
    by (simp add: s'_def)
  have av1: "is_room_available (db s') rid (date_of t) x y =
             is_room_available (db s) rid (date_of t) x y" if "time_of e \<le> x" for x y
    using that by (intro available_after_append[OF bs]) (simp add: booking_def)
  have av2: "is_room_available (db s') rid d x y = is_room_available (db s) rid d x y"
    if "d \<noteq> date_of t" for d x y
    using that by (intro available_after_append[OF bs]) (simp add: booking_def)
  have cf: "conflicts_with booking x \<longleftrightarrow>
            rb_room_id x = rid \<and> booking_date x = date_of t \<and> rb_status x \<noteq> BOOKING_CANCELLED \<and>
            time_of t < rb_end_time x \<and> rb_start_time x < time_of e" for x
    by (auto simp: conflicts_with_iff booking_def)
  have "rb_end_time booking < rb_start_time booking \<and>
         time_of (the (plus_minutes (fc_scheduled_time cls) (fc_duration_minutes cls))) <
           time_of (fc_scheduled_time cls) \<and>
         create_class now name tid rid t dur capacity descr s = (Inr cls, s') \<and>
         (\<forall>a b. time_of e \<le> a \<longrightarrow>
            is_room_available (db s') rid (date_of t) a b =
            is_room_available (db s) rid (date_of t) a b) \<and>
         (\<forall>d a b. d \<noteq> date_of t \<longrightarrow>
            is_room_available (db s') rid d a b = is_room_available (db s) rid d a b) \<and>
         (\<forall>x. conflicts_with booking x \<longleftrightarrow>
            rb_room_id x = rid \<and> booking_date x = date_of t \<and> rb_status x \<noteq> BOOKING_CANCELLED \<and>
            time_of t < rb_end_time x \<and> rb_start_time x < time_of e)"
    using wrap wrap_cls c av1 av2 cf by blast
  then show "(let booking = \<lparr>booking_id = booking_seq (seqs s), rb_room_id = rid,
                      booking_date = date_of t,
                      rb_start_time = time_of t, rb_end_time = time_of e,
                      purpose = Some (''Fitness Class: '' @ name), booked_by_admin_id = None,
                      rb_status = BOOKING_CONFIRMED\<rparr>;
          cls = \<lparr>class_id = class_seq (seqs s), fc_name = name, fc_description = descr,
                  fc_trainer_id = tid, fc_room_id = rid, fc_scheduled_time = t,
                  fc_duration_minutes = dur,
                  fc_capacity = (case capacity of None \<Rightarrow> room_capacity room | Some c \<Rightarrow> c),
                  fc_status = CLASS_SCHEDULED\<rparr>;
          s' = s\<lparr>db := (db s)\<lparr>fitness_classes := fitness_classes (db s) @ [cls],
                                room_bookings := room_bookings (db s) @ [booking]\<rparr>,
                 seqs := (seqs s)\<lparr>class_seq := class_seq (seqs s) + 1,
                                  booking_seq := booking_seq (seqs s) + 1\<rparr>\<rparr>
      in rb_end_time booking < rb_start_time booking \<and>
         time_of (the (plus_minutes (fc_scheduled_time cls) (fc_duration_minutes cls))) <
           time_of (fc_scheduled_time cls) \<and>
         create_class now name tid rid t dur capacity descr s = (Inr cls, s') \<and>
         (\<forall>a b. time_of e \<le> a \<longrightarrow>
            is_room_available (db s') rid (date_of t) a b =
            is_room_available (db s) rid (date_of t) a b) \<and>
         (\<forall>d a b. d \<noteq> date_of t \<longrightarrow>
            is_room_available (db s') rid d a b = is_room_available (db s) rid d a b) \<and>
         (\<forall>x. conflicts_with booking x \<longleftrightarrow>
            rb_room_id x = rid \<and> booking_date x = date_of t \<and> rb_status x \<noteq> BOOKING_CANCELLED \<and>
            time_of t < rb_end_time x \<and> rb_start_time x < time_of e))"
    unfolding Let_def s'_def cls_def booking_def .
qed

lemma midnight_club_eval:
  "midnight_club = club0\<lparr>db := (db club0)\<lparr>
      room_bookings := [\<lparr>booking_id = 1, rb_room_id = 1, booking_date = 739402,
        rb_start_time = hm 23 30, rb_end_time = hm 0 30, purpose = Some ''Fitness Class: Late'',
        booked_by_admin_id = None, rb_status = BOOKING_CONFIRMED\<rparr>],
      fitness_classes := [\<lparr>class_id = 1, fc_name = ''Late'', fc_description = None,
        fc_trainer_id = 1, fc_room_id = 1, fc_scheduled_time = at 739402 (hm 23 30),
        fc_duration_minutes = 60, fc_capacity = 30, fc_status = CLASS_SCHEDULED\<rparr>]\<rparr>,
      seqs := (seqs club0)\<lparr>booking_seq := 2, class_seq := 2\<rparr>\<rparr>"
  by (simp add: midnight_club_def club0_def eval_defs)

text \<open>
  Claim C9 as stated fails: the booking of a class from 23:30 to 00:30, stored as
  (23:30, 00:30), conflicts with a booking from 00:00 to 23:45 of the same room and
  date, and \<^verbatim>\<open>book_room\<close> rejects that request naming the wrapped window.
\<close>

theorem wrapped_booking_conflicts:
  "map (\<lambda>b. (booking_date b, rb_start_time b, rb_end_time b, rb_status b))
     (room_bookings (db midnight_club)) = [(739402, hm 23 30, hm 0 30, BOOKING_CONFIRMED)] \<and>
   conflicts_with (hd (room_bookings (db midnight_club)))
     \<lparr>booking_id = 0, rb_room_id = 1, booking_date = 739402, rb_start_time = hm 0 0,
      rb_end_time = hm 23 45, purpose = None, booked_by_admin_id = None,
      rb_status = BOOKING_CONFIRMED\<rparr> \<and>
   book_room now0 1 739402 (hm 0 0) (hm 23 45) None None midnight_club =
     (Inl (Conflict (hm 23 30) (hm 0 30)), midnight_club)"
  by (simp add: midnight_club_eval club0_def eval_defs)


theorem create_class_across_midnight_witness:
  "plus_minutes (at 739402 (hm 23 30)) 60 = Some (at 739403 (hm 0 30)) \<and>
   date_of (at 739403 (hm 0 30)) = date_of (at 739402 (hm 23 30)) + 1 \<and>
   time_of (at 739403 (hm 0 30)) < time_of (at 739402 (hm 23 30)) \<and>
   create_class now0 ''Late'' 1 1 (at 739402 (hm 23 30)) 60 None None club0 =
     (Inr \<lparr>class_id = 1, fc_name = ''Late'', fc_description = None, fc_trainer_id = 1,
           fc_room_id = 1, fc_scheduled_time = at 739402 (hm 23 30),
           fc_duration_minutes = 60, fc_capacity = 30, fc_status = CLASS_SCHEDULED\<rparr>,
      midnight_club) \<and>
   is_room_available (db midnight_club) 1 739402 (hm 23 30) (hm 23 45) \<and>
   is_room_available (db midnight_club) 1 739403 (hm 0 0) (hm 0 30)"
proof -
  have hyp: "pending club0 = []" "1 \<in> set (trainers (db club0))"
    "get_room_by_id (db club0) 1 =
       Some \<lparr>room_id = 1, room_name = ''Studio A'', room_capacity = 30\<rparr>"
    "now0 \<le> at 739402 (hm 23 30)"
    "plus_minutes (at 739402 (hm 23 30)) 60 = Some (at 739403 (hm 0 30))"
    "date_of (at 739403 (hm 0 30)) = date_of (at 739402 (hm 23 30)) + 1"
    "is_room_available (db club0) 1 (date_of (at 739402 (hm 23 30)))
       (time_of (at 739402 (hm 23 30))) (time_of (at 739403 (hm 0 30)))"
    "no_nul ''Late''" "length ''Late'' \<le> 100" "nullable no_nul (None :: string option)"
    "int32 1" "int32 30"
    "class_seq (seqs club0) \<le> INT_MAX" "booking_seq (seqs club0) \<le> INT_MAX"
    by (simp_all add: club0_def eval_defs)
  have vals: "date_of (at 739402 (hm 23 30)) = 739402"
    "time_of (at 739402 (hm 23 30)) = hm 23 30" "time_of (at 739403 (hm 0 30)) = hm 0 30"
    by (simp_all add: eval_defs)
  have concl: "time_of (at 739403 (hm 0 30)) < time_of (at 739402 (hm 23 30)) \<and>
     create_class now0 ''Late'' 1 1 (at 739402 (hm 23 30)) 60 None None club0 =
       (Inr \<lparr>class_id = 1, fc_name = ''Late'', fc_description = None, fc_trainer_id = 1,
             fc_room_id = 1, fc_scheduled_time = at 739402 (hm 23 30),
             fc_duration_minutes = 60, fc_capacity = 30, fc_status = CLASS_SCHEDULED\<rparr>,
        midnight_club)"
    using create_class_across_midnight[where s = club0 and tid = 1 and rid = 1
        and room = "\<lparr>room_id = 1, room_name = ''Studio A'', room_capacity = 30\<rparr>"
        and capacity = None and dur = 60 and now = now0 and name = "''Late''"
        and t = "at 739402 (hm 23 30)" and e = "at 739403 (hm 0 30)" and descr = None] hyp
    unfolding Let_def
    by (simp add: vals midnight_club_eval) (simp add: club0_def)
  have av: "is_room_available (db midnight_club) 1 739402 (hm 23 30) (hm 23 45)"
    "is_room_available (db midnight_club) 1 739403 (hm 0 0) (hm 0 30)"
    by (simp_all add: midnight_club_eval club0_def eval_defs)
  show ?thesis
    using hyp(5,6) concl av by simp
qed

end
